theory Spec2Isabelle
  imports Complex_Main
begin

section \<open>The simulation core of idle-ant-farm\<close>

text \<open>
  The stores of the game (\<^verbatim>\<open>src/stores/gameStore.ts\<close>, \<^verbatim>\<open>src/stores/prestigeStore.ts\<close> and the
  achievement store that follows it in the same file) are Pinia stores: a record of mutable
  fields and actions that update it. Each store is a \<^theory_text>\<open>record\<close> here and each action a
  function from the store to the updated store.

  A JavaScript \<^verbatim>\<open>number\<close> is an IEEE 754 double. It is modelled by the real number it
  stands for; \<^verbatim>\<open>Math.floor\<close> is the floor and \<^verbatim>\<open>Math.min\<close> is \<open>min\<close>. In the actions whose
  results depend on how a double rounds (offline progress, the prestige points and the loop
  of \<^verbatim>\<open>buyMaxUpgrade\<close>) every arithmetic operation is followed by the rounding \<open>binary64\<close>
  of its result, in the order in which the source evaluates it. The other actions compute
  with exact reals. \<^verbatim>\<open>NaN\<close>, the infinities and overflow are not part of the model. A field
  that may be \<^verbatim>\<open>undefined\<close> has an \<open>option\<close> type, \<open>None\<close> standing for \<^verbatim>\<open>undefined\<close>.
\<close>

type_synonym number = real

subsection \<open>Rounding to a double\<close>

text \<open>
  \<open>binary64 x\<close> is the double nearest to the real \<open>x\<close>, the one with the even significand
  when two are equally near (the rounding of every arithmetic operation of JavaScript). The
  doubles \<open>d\<close> with \<open>2 powi e \<le> \<bar>d\<bar> < 2 powi (e + 1)\<close> are the multiples of \<open>2 powi (e - 52)\<close>,
  for \<open>e\<close> from \<open>- 1022\<close> to \<open>1023\<close>; those below \<open>2 powi (- 1022)\<close> are the multiples of
  \<open>2 powi (- 1074)\<close>. \<open>exponent x\<close> is that \<open>e\<close>, found by a search from the largest exponent
  down, and \<open>roundHalfEven\<close> rounds a real to the nearest integer. A result of magnitude
  \<open>2 powi 1024\<close> or more is an infinity in JavaScript; \<open>binary64\<close> rounds it within the last
  range of exponents instead.
\<close>

definition roundHalfEven :: "real \<Rightarrow> int" where
  "roundHalfEven y =
    (let f = \<lfloor>y\<rfloor>; r = y - of_int f
     in if r < 1 / 2 then f else if r > 1 / 2 then f + 1 else if even f then f else f + 1)"

primrec exponentBelow :: "nat \<Rightarrow> real \<Rightarrow> int" where
  "exponentBelow 0 a = - 1022"
| "exponentBelow (Suc n) a =
    (if 2 powi (int n - 1021) \<le> a then int n - 1021 else exponentBelow n a)"

definition exponent :: "real \<Rightarrow> int" where
  "exponent x = exponentBelow 2045 \<bar>x\<bar>"

definition binary64 :: "real \<Rightarrow> number" where
  "binary64 x = (let q = 2 powi (exponent x - 52) in of_int (roundHalfEven (x / q)) * q)"

subsection \<open>The adventure store, as far as the game store writes it\<close>

record adventureStore =
  armyMaxHealth :: number
  armyHealth :: number
  armyAttack :: number
  armyDefense :: number

subsection \<open>gameStore.ts: state\<close>

text \<open>
  An entry of the game store's own prestige shop. The display text \<^verbatim>\<open>description\<close> is left out.
  \<^verbatim>\<open>loadGameState\<close> can store \<^verbatim>\<open>undefined\<close> in \<^verbatim>\<open>cost\<close>, hence the option.
\<close>

record GameShopItem =
  item_id :: string
  name :: string
  cost :: "number option"

text \<open>
  The fields of \<^verbatim>\<open>state: () => ({...})\<close> in gameStore.ts, in the order of the source; the timer
  handle \<^verbatim>\<open>gameLoopInterval\<close> is left out. The last five fields are not declared in gameStore.ts:
  prestigeStore.ts is written against a game store that groups its fields
  (\<^verbatim>\<open>resources.ants\<close>, \<^verbatim>\<open>storage.maxSeeds\<close>, \<^verbatim>\<open>productionRates.larvaeProductionRate\<close>) and
  has these five in addition. The record keeps one flat field for each name.
\<close>

record gameStore =
  loaded :: bool
  larvae :: number
  ants :: number
  seeds :: number
  queens :: number
  lastSavedTime :: number
  maxSeeds :: number
  maxLarvae :: number
  initialMaxSeeds :: number
  initialMaxLarvae :: number
  seedStorageUpgradeCost :: number
  larvaeStorageUpgradeCost :: number
  storageUpgradeFactor :: number
  upgradeCostFactor :: number
  larvaeProductionRate :: number
  collectionRatePerAnt :: number
  seedCostPerLarva :: number
  seedCostPerAnt :: number
  larvaCostPerAnt :: number
  antCostPerQueen :: number
  seedCostPerQueen :: number
  prestigePoints :: number
  purchasedUpgrades :: "string list"
  prestigeShop :: "GameShopItem list"
  autoLarvaeCreation :: bool
  attackPerAnt :: number
  healthPerAnt :: number
  defensePerAnt :: number
  maxAnts :: number
  maxQueens :: number
  maxEliteAnts :: number
  eliteAntsUnlocked :: bool
  royalJellyUnlocked :: bool

text \<open>
  The initial state of gameStore.ts; \<open>now\<close> is the value of \<^verbatim>\<open>Date.now()\<close>. The five fields
  that gameStore.ts does not declare have no initial value in the repository: they are the
  parameters \<open>mA\<close>, \<open>mQ\<close>, \<open>mE\<close> (the caps) and \<open>False\<close> for the two unlock flags.
\<close>

definition initialGameStore :: "number \<Rightarrow> number \<Rightarrow> number \<Rightarrow> number \<Rightarrow> gameStore" where
  "initialGameStore now mA mQ mE =
    \<lparr> loaded = False, larvae = 0, ants = 0, seeds = 10, queens = 1, lastSavedTime = now,
      maxSeeds = 1000, maxLarvae = 10, initialMaxSeeds = 1000, initialMaxLarvae = 10,
      seedStorageUpgradeCost = 500, larvaeStorageUpgradeCost = 100,
      storageUpgradeFactor = 1.2, upgradeCostFactor = 1.3,
      larvaeProductionRate = 1, collectionRatePerAnt = 60,
      seedCostPerLarva = 100, seedCostPerAnt = 50, larvaCostPerAnt = 1,
      antCostPerQueen = 100, seedCostPerQueen = 250,
      prestigePoints = 0, purchasedUpgrades = [],
      prestigeShop =
        [ \<lparr>item_id = ''storageUpgrade'', name = ''Storage Upgrade'', cost = Some 10\<rparr>,
          \<lparr>item_id = ''productionBoost'', name = ''Production Boost'', cost = Some 15\<rparr>,
          \<lparr>item_id = ''queenEfficiency'', name = ''Queen Efficiency'', cost = Some 20\<rparr>,
          \<lparr>item_id = ''betterAnts'', name = ''Stronger Ants'', cost = Some 100\<rparr> ],
      autoLarvaeCreation = False,
      attackPerAnt = 2, healthPerAnt = 10, defensePerAnt = 1,
      maxAnts = mA, maxQueens = mQ, maxEliteAnts = mE,
      eliteAntsUnlocked = False, royalJellyUnlocked = False \<rparr>"

subsection \<open>gameStore.ts: resources\<close>

definition createLarvae :: "gameStore \<Rightarrow> gameStore" where
  "createLarvae g =
    (if seeds g \<ge> seedCostPerLarva g \<and> larvae g < maxLarvae g
     then g\<lparr>larvae := larvae g + 1, seeds := seeds g - seedCostPerLarva g\<rparr>
     else g)"

definition createMaxLarvae :: "gameStore \<Rightarrow> gameStore" where
  "createMaxLarvae g =
    (let maxLarvaeToCreate =
           min (of_int \<lfloor>seeds g / seedCostPerLarva g\<rfloor>) (maxLarvae g - larvae g)
     in if maxLarvaeToCreate > 0
        then g\<lparr>larvae := larvae g + maxLarvaeToCreate,
               seeds := seeds g - maxLarvaeToCreate * seedCostPerLarva g\<rparr>
        else g)"

definition createAnts :: "gameStore \<Rightarrow> gameStore" where
  "createAnts g =
    (if larvae g \<ge> larvaCostPerAnt g \<and> seeds g \<ge> seedCostPerAnt g
     then g\<lparr>ants := ants g + 1, larvae := larvae g - larvaCostPerAnt g,
            seeds := seeds g - seedCostPerAnt g\<rparr>
     else g)"

definition createMaxAnts :: "gameStore \<Rightarrow> gameStore" where
  "createMaxAnts g =
    (let maxAntsByLarvae = larvae g;
         maxAntsBySeeds = of_int \<lfloor>seeds g / seedCostPerAnt g\<rfloor>;
         maxAntsToCreate = min maxAntsByLarvae maxAntsBySeeds
     in if maxAntsToCreate > 0
        then g\<lparr>larvae := larvae g - maxAntsToCreate * larvaCostPerAnt g,
               seeds := seeds g - maxAntsToCreate * seedCostPerAnt g,
               ants := ants g + maxAntsToCreate\<rparr>
        else g)"

definition buyQueen :: "gameStore \<Rightarrow> gameStore" where
  "buyQueen g =
    (if ants g \<ge> antCostPerQueen g \<and> seeds g \<ge> seedCostPerQueen g
     then g\<lparr>queens := queens g + 1, ants := ants g - antCostPerQueen g,
            seeds := seeds g - seedCostPerQueen g\<rparr>
     else g)"

definition buyMaxQueens :: "gameStore \<Rightarrow> gameStore" where
  "buyMaxQueens g =
    (let maxQueensByAnts = of_int \<lfloor>ants g / antCostPerQueen g\<rfloor>;
         maxQueensBySeeds = of_int \<lfloor>seeds g / seedCostPerQueen g\<rfloor>;
         maxQueensToBuy = min maxQueensByAnts maxQueensBySeeds
     in if maxQueensToBuy > 0
        then g\<lparr>ants := ants g - maxQueensToBuy * antCostPerQueen g,
               seeds := seeds g - maxQueensToBuy * seedCostPerQueen g,
               queens := queens g + maxQueensToBuy\<rparr>
        else g)"

text \<open>
  \<^verbatim>\<open>collectSeedsManually(amount = 1)\<close>: the parameter is explicit here; the source's default is
  \<open>collectSeedsManually 1\<close>.
\<close>

definition collectSeedsManually :: "number \<Rightarrow> gameStore \<Rightarrow> gameStore" where
  "collectSeedsManually amount g =
    (let manualSeedCollectionRate = 10;
         seedsToAdd = min manualSeedCollectionRate (maxSeeds g - seeds g)
     in if amount > 0 \<and> seeds g + seedsToAdd \<le> maxSeeds g
        then g\<lparr>seeds := seeds g + amount\<rparr>
        else g\<lparr>seeds := seeds g + seedsToAdd\<rparr>)"

definition upgradeSeedStorage :: "gameStore \<Rightarrow> gameStore" where
  "upgradeSeedStorage g =
    (if seeds g \<ge> seedStorageUpgradeCost g
     then g\<lparr>seeds := seeds g - seedStorageUpgradeCost g,
            maxSeeds := of_int \<lfloor>maxSeeds g * storageUpgradeFactor g\<rfloor>,
            seedStorageUpgradeCost := of_int \<lfloor>seedStorageUpgradeCost g * upgradeCostFactor g\<rfloor>\<rparr>
     else g)"

definition upgradeLarvaeStorage :: "gameStore \<Rightarrow> gameStore" where
  "upgradeLarvaeStorage g =
    (if seeds g \<ge> larvaeStorageUpgradeCost g
     then g\<lparr>seeds := seeds g - larvaeStorageUpgradeCost g,
            maxLarvae := of_int \<lfloor>maxLarvae g * storageUpgradeFactor g\<rfloor>,
            larvaeStorageUpgradeCost := of_int \<lfloor>larvaeStorageUpgradeCost g * upgradeCostFactor g\<rfloor>\<rparr>
     else g)"

text \<open>
  \<^verbatim>\<open>calculateOfflineProgress\<close>, in double arithmetic: \<open>currentTime\<close> is the value \<^verbatim>\<open>Date.now()\<close>
  returns. The three locals of the source are functions of their own, so that the grant can
  be named. \<^verbatim>\<open>a * b * c\<close> is \<^verbatim>\<open>(a * b) * c\<close>, each product rounded.
\<close>

definition timeElapsed :: "number \<Rightarrow> gameStore \<Rightarrow> number" where
  "timeElapsed currentTime g = binary64 (binary64 (currentTime - lastSavedTime g) / 60000)"

definition larvaeProduced :: "number \<Rightarrow> gameStore \<Rightarrow> number" where
  "larvaeProduced currentTime g =
    min (of_int \<lfloor>binary64 (binary64 (timeElapsed currentTime g * larvaeProductionRate g)
                               * queens g)\<rfloor>)
        (binary64 (maxLarvae g - larvae g))"

definition seedsCollected :: "number \<Rightarrow> gameStore \<Rightarrow> number" where
  "seedsCollected currentTime g =
    min (of_int \<lfloor>binary64 (binary64 (timeElapsed currentTime g * collectionRatePerAnt g)
                               * ants g)\<rfloor>)
        (binary64 (maxSeeds g - seeds g))"

definition calculateOfflineProgress :: "number \<Rightarrow> gameStore \<Rightarrow> gameStore" where
  "calculateOfflineProgress currentTime g =
    g\<lparr>larvae := binary64 (larvae g + larvaeProduced currentTime g),
      seeds := binary64 (seeds g + seedsCollected currentTime g),
      lastSavedTime := currentTime\<rparr>"

text \<open>The callback that \<^verbatim>\<open>startGameLoop\<close> runs once a second.\<close>

definition gameLoopTick :: "gameStore \<Rightarrow> gameStore" where
  "gameLoopTick g =
    (let g1 = g\<lparr>larvae := min (larvae g + larvaeProductionRate g * queens g / 60) (maxLarvae g)\<rparr>;
         g2 = g1\<lparr>seeds := min (seeds g1 + (collectionRatePerAnt g1 * ants g1) / 60) (maxSeeds g1)\<rparr>
     in if autoLarvaeCreation g2 then createMaxLarvae g2 else g2)"

definition setupAdventureStats :: "gameStore \<Rightarrow> adventureStore \<Rightarrow> adventureStore" where
  "setupAdventureStats g a =
    (if ants g = 0 then a
     else let a1 = a\<lparr>armyMaxHealth := ants g * healthPerAnt g\<rparr>;
              a2 = a1\<lparr>armyHealth := (if armyHealth a1 \<noteq> 0
                                      then min (armyHealth a1) (armyMaxHealth a1)
                                      else armyMaxHealth a1)\<rparr>
          in a2\<lparr>armyAttack := ants g * attackPerAnt g,
                armyDefense := ants g * defensePerAnt g\<rparr>)"


subsection \<open>gameStore.ts: the game store's own prestige upgrades\<close>

text \<open>
  gameStore.ts has prestige upgrades of its own (\<^verbatim>\<open>applyPrestigeUpgrade\<close>,
  \<^verbatim>\<open>applyPrestigeUpgrades\<close>); prestigeStore.ts has actions of the same names, so these carry
  the prefix \<open>gameStore_\<close>. An action that reaches into the adventure store works on the pair
  of both stores. The console output of gameStore.ts is not modelled.
\<close>

definition gameStore_applyPrestigeUpgrade ::
  "string \<Rightarrow> gameStore \<times> adventureStore \<Rightarrow> gameStore \<times> adventureStore" where
  "gameStore_applyPrestigeUpgrade upgradeId ga =
    (case ga of (g, a) \<Rightarrow>
      if upgradeId = ''storageUpgrade''
      then (g\<lparr>maxSeeds := maxSeeds g * 1.2, maxLarvae := maxLarvae g * 1.2\<rparr>, a)
      else if upgradeId = ''productionBoost''
      then (g\<lparr>larvaeProductionRate := larvaeProductionRate g * 1.2,
              collectionRatePerAnt := collectionRatePerAnt g * 1.2\<rparr>, a)
      else if upgradeId = ''queenEfficiency''
      then (g\<lparr>larvaeProductionRate := larvaeProductionRate g * 1.5\<rparr>, a)
      else if upgradeId = ''autoLarvae''
      then (g\<lparr>autoLarvaeCreation := True\<rparr>, a)
      else if upgradeId = ''betterAnts''
      then (let g1 = g\<lparr>attackPerAnt := attackPerAnt g * 1.1\<rparr>
            in (g1, setupAdventureStats g1 a))
      else (g, a))"

definition gameStore_applyPrestigeUpgrades ::
  "gameStore \<times> adventureStore \<Rightarrow> gameStore \<times> adventureStore" where
  "gameStore_applyPrestigeUpgrades ga =
    foldl (\<lambda>ga' upgradeId. gameStore_applyPrestigeUpgrade upgradeId ga') ga
      (purchasedUpgrades (fst ga))"

text \<open>
  \<^verbatim>\<open>resetGameState(debug = false)\<close>. The body is one \<^verbatim>\<open>try\<close> block whose \<^verbatim>\<open>catch\<close> only logs,
  so a rejected \<^verbatim>\<open>await\<close> ends the action where it stands. The awaited calls go to code outside
  the repository: \<open>delOk\<close> and \<open>inventoryOk\<close> say whether \<^verbatim>\<open>del('idleGameState')\<close> and
  \<^verbatim>\<open>inventoryStore.resetInventoryState()\<close> resolve, and \<open>resetAdventure\<close> is what
  \<^verbatim>\<open>adventureStore.stopBattle()\<close> followed by \<^verbatim>\<open>resetAdventureState()\<close> does to the adventure
  store. \<open>now\<close> is \<^verbatim>\<open>Date.now()\<close>.
\<close>

definition resetGameState ::
  "number \<Rightarrow> bool \<Rightarrow> bool \<Rightarrow> (adventureStore \<Rightarrow> adventureStore) \<Rightarrow> bool \<Rightarrow>
   gameStore \<times> adventureStore \<Rightarrow> gameStore \<times> adventureStore" where
  "resetGameState now delOk inventoryOk resetAdventure debug ga =
    (case ga of (g, a) \<Rightarrow>
      if \<not> delOk then (g, a)
      else
        let g1 = g\<lparr>larvae := 0, ants := 0, seeds := 10, queens := 1,
                   maxSeeds := initialMaxSeeds g, maxLarvae := initialMaxLarvae g,
                   seedStorageUpgradeCost := 500, larvaeStorageUpgradeCost := 100,
                   lastSavedTime := now\<rparr>;
            g2 = (if debug then g1\<lparr>prestigePoints := 0, purchasedUpgrades := []\<rparr> else g1);
            g3 = g2\<lparr>healthPerAnt := 10, attackPerAnt := 2, defensePerAnt := 1\<rparr>
        in if \<not> inventoryOk then (g3, a)
           else case gameStore_applyPrestigeUpgrades (g3, a) of
                  (g4, a4) \<Rightarrow> (g4, resetAdventure a4))"

subsection \<open>gameStore.ts: saving and loading\<close>

text \<open>
  The saved blob: the object \<^verbatim>\<open>saveGameState\<close> writes and \<^verbatim>\<open>loadGameState\<close> reads back. Every
  field may be absent in a blob that an earlier version of the game wrote, hence the options.
  \<open>nullish a b\<close> is the operator \<^verbatim>\<open>a ?? b\<close>.
\<close>

definition nullish :: "'a option \<Rightarrow> 'a \<Rightarrow> 'a" where
  "nullish a b = (case a of None \<Rightarrow> b | Some v \<Rightarrow> v)"

record savedGameState =
  saved_ants :: "number option"
  saved_seeds :: "number option"
  saved_queens :: "number option"
  saved_larvae :: "number option"
  saved_maxSeeds :: "number option"
  saved_maxLarvae :: "number option"
  saved_seedStorageUpgradeCost :: "number option"
  saved_larvaeStorageUpgradeCost :: "number option"
  saved_prestigePoints :: "number option"
  saved_purchasedUpgrades :: "string list option"
  saved_lastSavedTime :: "number option"
  saved_storagePrestigeCost :: "number option"
  saved_productionPrestigeCost :: "number option"
  saved_queenPrestigeCost :: "number option"
  saved_autoLarvaePrestigeCost :: "number option"
  saved_betterAntsPrestigeCost :: "number option"
  saved_attackPerAnt :: "number option"
  saved_healthPerAnt :: "number option"
  saved_defensePerAnt :: "number option"

text \<open>The blob with no field at all: the object \<^verbatim>\<open>{}\<close>.\<close>

definition emptySavedGameState :: savedGameState where
  "emptySavedGameState =
    \<lparr> saved_ants = None, saved_seeds = None, saved_queens = None, saved_larvae = None,
      saved_maxSeeds = None, saved_maxLarvae = None, saved_seedStorageUpgradeCost = None,
      saved_larvaeStorageUpgradeCost = None, saved_prestigePoints = None,
      saved_purchasedUpgrades = None, saved_lastSavedTime = None,
      saved_storagePrestigeCost = None, saved_productionPrestigeCost = None,
      saved_queenPrestigeCost = None, saved_autoLarvaePrestigeCost = None,
      saved_betterAntsPrestigeCost = None, saved_attackPerAnt = None,
      saved_healthPerAnt = None, saved_defensePerAnt = None \<rparr>"

text \<open>
  \<^verbatim>\<open>this.prestigeShop.find(u => u.id === k)?.cost ?? d\<close>: the cost of the first entry with id
  \<open>k\<close>, and \<open>d\<close> when there is no such entry or its cost is \<^verbatim>\<open>undefined\<close>.
\<close>

definition shopCostOr :: "GameShopItem list \<Rightarrow> string \<Rightarrow> number \<Rightarrow> number" where
  "shopCostOr shop k d =
    (case find (\<lambda>u. item_id u = k) shop of
       None \<Rightarrow> d
     | Some u \<Rightarrow> nullish (cost u) d)"

text \<open>
  The object that \<^verbatim>\<open>saveGameState\<close> hands to \<^verbatim>\<open>set('idleGameState', ...)\<close>; \<open>now\<close> is
  \<^verbatim>\<open>Date.now()\<close>.
\<close>

definition saveGameState :: "number \<Rightarrow> gameStore \<Rightarrow> savedGameState" where
  "saveGameState now g =
    \<lparr> saved_ants = Some (ants g), saved_seeds = Some (seeds g), saved_queens = Some (queens g),
      saved_larvae = Some (larvae g), saved_maxSeeds = Some (maxSeeds g),
      saved_maxLarvae = Some (maxLarvae g),
      saved_seedStorageUpgradeCost = Some (seedStorageUpgradeCost g),
      saved_larvaeStorageUpgradeCost = Some (larvaeStorageUpgradeCost g),
      saved_prestigePoints = Some (prestigePoints g),
      saved_purchasedUpgrades = Some (purchasedUpgrades g),
      saved_lastSavedTime = Some now,
      saved_storagePrestigeCost = Some (shopCostOr (prestigeShop g) ''storageUpgrade'' 10),
      saved_productionPrestigeCost = Some (shopCostOr (prestigeShop g) ''productionBoost'' 15),
      saved_queenPrestigeCost = Some (shopCostOr (prestigeShop g) ''queenEfficiency'' 20),
      saved_autoLarvaePrestigeCost = Some (shopCostOr (prestigeShop g) ''autoLarvae'' 25),
      saved_betterAntsPrestigeCost = Some (shopCostOr (prestigeShop g) ''betterAnts'' 100),
      saved_attackPerAnt = Some (attackPerAnt g), saved_healthPerAnt = Some (healthPerAnt g),
      saved_defensePerAnt = Some (defensePerAnt g) \<rparr>"

text \<open>
  The callback of \<^verbatim>\<open>this.prestigeShop.map(shop => {...})\<close> in \<^verbatim>\<open>loadGameState\<close>: five
  assignments in a row, each under its own \<^verbatim>\<open>if\<close>, none with a fallback.
\<close>

definition loadShopCost :: "savedGameState \<Rightarrow> GameShopItem \<Rightarrow> GameShopItem" where
  "loadShopCost savedState shop =
    (let s1 = (if item_id shop = ''storageUpgrade''
               then shop\<lparr>cost := saved_storagePrestigeCost savedState\<rparr> else shop);
         s2 = (if item_id s1 = ''productionBoost''
               then s1\<lparr>cost := saved_productionPrestigeCost savedState\<rparr> else s1);
         s3 = (if item_id s2 = ''queenEfficiency''
               then s2\<lparr>cost := saved_queenPrestigeCost savedState\<rparr> else s2);
         s4 = (if item_id s3 = ''autoLarvae''
               then s3\<lparr>cost := saved_autoLarvaePrestigeCost savedState\<rparr> else s3)
     in if item_id s4 = ''betterAnts''
        then s4\<lparr>cost := saved_betterAntsPrestigeCost savedState\<rparr> else s4)"

text \<open>What \<^verbatim>\<open>await get('idleGameState')\<close> gives: a rejection, nothing, or a blob.\<close>

datatype getResult = GetRejects | GetNothing | GetBlob savedGameState

text \<open>
  \<^verbatim>\<open>loadGameState\<close>. \<open>loadAdventure\<close> is what the awaited \<^verbatim>\<open>loadAdventureState()\<close> of the
  adventure store, which is not in the repository, does to that store; the inventory store
  is not part of the state, and the two awaited loads are taken to resolve. \<open>now\<close> is
  \<^verbatim>\<open>Date.now()\<close> inside \<^verbatim>\<open>calculateOfflineProgress\<close>.
\<close>

definition loadGameState ::
  "getResult \<Rightarrow> (adventureStore \<Rightarrow> adventureStore) \<Rightarrow> number \<Rightarrow>
   gameStore \<times> adventureStore \<Rightarrow> gameStore \<times> adventureStore" where
  "loadGameState got loadAdventure now ga =
    (case ga of (g, a) \<Rightarrow>
      case got of
        GetRejects \<Rightarrow> (g, a)
      | _ \<Rightarrow>
        let (g1, a1) =
          (case got of
             GetBlob savedState \<Rightarrow>
               (g\<lparr>ants := nullish (saved_ants savedState) (ants g),
                  seeds := nullish (saved_seeds savedState) (seeds g),
                  queens := nullish (saved_queens savedState) (queens g),
                  larvae := nullish (saved_larvae savedState) (larvae g),
                  maxSeeds := nullish (saved_maxSeeds savedState) (maxSeeds g),
                  maxLarvae := nullish (saved_maxLarvae savedState) (maxLarvae g),
                  seedStorageUpgradeCost :=
                    nullish (saved_seedStorageUpgradeCost savedState) (seedStorageUpgradeCost g),
                  larvaeStorageUpgradeCost :=
                    nullish (saved_larvaeStorageUpgradeCost savedState) (larvaeStorageUpgradeCost g),
                  prestigePoints := nullish (saved_prestigePoints savedState) (prestigePoints g),
                  purchasedUpgrades :=
                    nullish (saved_purchasedUpgrades savedState) (purchasedUpgrades g),
                  lastSavedTime := nullish (saved_lastSavedTime savedState) (lastSavedTime g),
                  prestigeShop := map (loadShopCost savedState) (prestigeShop g),
                  attackPerAnt := nullish (saved_attackPerAnt savedState) (attackPerAnt g),
                  healthPerAnt := nullish (saved_healthPerAnt savedState) (healthPerAnt g),
                  defensePerAnt := nullish (saved_defensePerAnt savedState) (defensePerAnt g)\<rparr>,
                loadAdventure a)
           | _ \<Rightarrow> (g, a));
          g2 = calculateOfflineProgress now g1
        in (g2\<lparr>loaded := True\<rparr>, setupAdventureStats g2 a1))"


subsection \<open>prestigeStore.ts: state\<close>

datatype category = Auto | Production | Storage | Combat | Expansion

text \<open>
  \<^verbatim>\<open>interface PrestigeShopItem\<close>. The optional fields are options. The display text
  \<^verbatim>\<open>description\<close> and the closure \<^verbatim>\<open>unlockedWhen\<close>, which only the shop's page calls, are left
  out.
\<close>

record PrestigeShopItem =
  item_id :: string
  name :: string
  cost :: number
  oneTimePurchase :: "bool option"
  applyOnPrestige :: "bool option"
  category :: "category option"

text \<open>The calls of \<^verbatim>\<open>console.log\<close> and \<^verbatim>\<open>console.error\<close> in prestigeStore.ts, one constructor each.\<close>

datatype console_msg =
    LogTryToApply string bool
  | LogPrestigeInShop "PrestigeShopItem option"
  | LogNotApplicable string
  | LogApplying string
  | LogInvalidUpgradeId string
  | LogPurchased string
  | LogNotEnoughOrInvalid
  | LogInvalidUpgrade
  | LogPurchasedMax string
  | ErrorUserIdNotFound
  | LogNotEnoughResources
  | LogPrestigeSuccessful number
  | ErrorDuringPrestige

text \<open>
  The state of the prestige store, followed by what its actions reach outside it: the game
  store and the adventure store (through \<^verbatim>\<open>useGameStore()\<close>), the console and the toasts shown.
\<close>

record prestigeStore =
  prestigePoints :: number
  timesPrestiged :: number
  purchasedUpgrades :: "string list"
  prestigeShop :: "PrestigeShopItem list"
  autoLarvaeCreation :: bool
  autoAntCreation :: bool
  autoEliteAntsCreation :: bool
  autoQueenCreation :: bool
  autoSeedStorageUpgrade :: bool
  antsFromPrestigeShop :: number
  baseAntThreshold :: number
  baseQueenThreshold :: number
  game :: gameStore
  adventure :: adventureStore
  console :: "console_msg list"
  toasts :: "string list"

definition initialPrestigeShop :: "PrestigeShopItem list" where
  "initialPrestigeShop =
    [ \<lparr>item_id = ''autoAnts'', name = ''Auto Ant Creation'', cost = 20,
        oneTimePurchase = Some True, applyOnPrestige = Some True, category = Some Auto\<rparr>,
      \<lparr>item_id = ''autoQueens'', name = ''Auto Queen Creation'', cost = 20,
        oneTimePurchase = Some True, applyOnPrestige = Some True, category = Some Auto\<rparr>,
      \<lparr>item_id = ''autoSeedStorageUpgrade'', name = ''Auto Seed Storage Upgrade'', cost = 10,
        oneTimePurchase = Some True, applyOnPrestige = Some True, category = Some Auto\<rparr>,
      \<lparr>item_id = ''autoEliteAntsCreation'', name = ''Auto Elite Ants Creation'', cost = 100,
        oneTimePurchase = Some True, applyOnPrestige = Some True, category = Some Auto\<rparr>,
      \<lparr>item_id = ''betterAnts'', name = ''Stronger Ants'', cost = 50,
        oneTimePurchase = None, applyOnPrestige = Some False, category = Some Combat\<rparr>,
      \<lparr>item_id = ''betterAntsDefense'', name = ''Stronger Ants Defense'', cost = 50,
        oneTimePurchase = None, applyOnPrestige = Some False, category = Some Combat\<rparr>,
      \<lparr>item_id = ''startWithAnts'', name = ''Start with Ants'', cost = 15,
        oneTimePurchase = None, applyOnPrestige = Some True, category = Some Expansion\<rparr>,
      \<lparr>item_id = ''eliteAnts'', name = ''Elite Ants'', cost = 500,
        oneTimePurchase = Some True, applyOnPrestige = Some True, category = Some Expansion\<rparr>,
      \<lparr>item_id = ''storageUpgrade'', name = ''Storage Upgrade'', cost = 5,
        oneTimePurchase = None, applyOnPrestige = Some True, category = Some Storage\<rparr>,
      \<lparr>item_id = ''eliteAntsStoreUpgrade'', name = ''Elite Ants Store Upgrade'', cost = 100,
        oneTimePurchase = None, applyOnPrestige = Some True, category = Some Storage\<rparr>,
      \<lparr>item_id = ''productionBoost'', name = ''Production Boost'', cost = 10,
        oneTimePurchase = None, applyOnPrestige = None, category = Some Production\<rparr>,
      \<lparr>item_id = ''queenEfficiency'', name = ''Queen Efficiency'', cost = 15,
        oneTimePurchase = None, applyOnPrestige = None, category = Some Production\<rparr>,
      \<lparr>item_id = ''royalJelly'', name = ''Royal Jelly'', cost = 1000,
        oneTimePurchase = Some True, applyOnPrestige = Some True, category = Some Expansion\<rparr>,
      \<lparr>item_id = ''tunnels'', name = ''Tunnels'', cost = 500,
        oneTimePurchase = Some True, applyOnPrestige = Some True, category = Some Expansion\<rparr> ]"

text \<open>
  The initial state of prestigeStore.ts, beside a game store \<open>g\<close> and an adventure store \<open>a\<close>,
  with nothing logged or shown yet.
\<close>

definition initialPrestigeStore :: "gameStore \<Rightarrow> adventureStore \<Rightarrow> prestigeStore" where
  "initialPrestigeStore g a =
    \<lparr> prestigePoints = 0, timesPrestiged = 0, purchasedUpgrades = [],
      prestigeShop = initialPrestigeShop,
      autoLarvaeCreation = False, autoAntCreation = False, autoEliteAntsCreation = False,
      autoQueenCreation = False, autoSeedStorageUpgrade = False,
      antsFromPrestigeShop = 0, baseAntThreshold = 50, baseQueenThreshold = 2,
      game = g, adventure = a, console = [], toasts = [] \<rparr>"

definition logMsg :: "console_msg \<Rightarrow> prestigeStore \<Rightarrow> prestigeStore" where
  "logMsg m s = s\<lparr>console := console s @ [m]\<rparr>"

text \<open>The getters.\<close>

definition upgradePurchased :: "prestigeStore \<Rightarrow> string \<Rightarrow> bool" where
  "upgradePurchased s upgradeId = (upgradeId \<in> set (purchasedUpgrades s))"

definition amountOfUpgrade :: "prestigeStore \<Rightarrow> string \<Rightarrow> nat" where
  "amountOfUpgrade s upgradeId = length (filter (\<lambda>i. i = upgradeId) (purchasedUpgrades s))"

subsection \<open>prestigeStore.ts: prestige points\<close>

text \<open>
  \<^verbatim>\<open>calculatePrestigePointsFor\<close> and \<^verbatim>\<open>calculatePrestigePoints\<close>, in double arithmetic. The
  literals \<^verbatim>\<open>0.2\<close> and \<^verbatim>\<open>0.05\<close> are the doubles nearest to one fifth and one twentieth.
\<close>

definition calculatePrestigePointsFor :: "number \<Rightarrow> number \<Rightarrow> number \<Rightarrow> bool \<Rightarrow> number" where
  "calculatePrestigePointsFor currentResources baseThreshold prestigeCount scaling =
    (let scalingFactor0 = binary64 (1 + binary64 (prestigeCount * binary64 0.2));
         scalingFactor = (if prestigeCount < 5 \<or> \<not> scaling then 1 else scalingFactor0);
         threshold = binary64 (baseThreshold * scalingFactor)
     in if currentResources < threshold then 0
        else if prestigeCount \<le> 5 \<or> \<not> scaling
        then binary64 (of_int \<lfloor>binary64 (currentResources / threshold)\<rfloor> + 1)
        else let prestigePoints' =
                   of_int \<lfloor>binary64 (binary64 (currentResources / threshold)
                     * binary64 (1 + binary64 (prestigeCount * binary64 0.05)))\<rfloor>
             in if prestigePoints' > 0 then prestigePoints' else 0)"

definition calculatePrestigePoints :: "prestigeStore \<Rightarrow> number" where
  "calculatePrestigePoints s =
    (let ants' = ants (game s);
         queens' = queens (game s);
         antPoints = calculatePrestigePointsFor ants' (baseAntThreshold s) (timesPrestiged s) True;
         queenPoints =
           calculatePrestigePointsFor queens' (baseQueenThreshold s) (timesPrestiged s) False
     in binary64 (antPoints + queenPoints))"

text \<open>
  The contribution of one resource in the words of the specification, to compare
  \<open>calculatePrestigePointsFor\<close> with. The formulas of the specification are evaluated as the
  program evaluates a formula: in doubles, every operation rounded.
\<close>

definition spec_scalingFactor :: "number \<Rightarrow> bool \<Rightarrow> number" where
  "spec_scalingFactor timesPrestiged' scalingEnabled =
    (if timesPrestiged' < 5 \<or> \<not> scalingEnabled then 1
     else binary64 (1 + binary64 (timesPrestiged' * binary64 0.2)))"

definition spec_contribution :: "number \<Rightarrow> number \<Rightarrow> number \<Rightarrow> bool \<Rightarrow> number" where
  "spec_contribution resource baseThreshold timesPrestiged' scalingEnabled =
    (let threshold = binary64 (baseThreshold * spec_scalingFactor timesPrestiged' scalingEnabled)
     in if resource < threshold then 0
        else if timesPrestiged' \<le> 5 \<or> \<not> scalingEnabled
        then binary64 (of_int \<lfloor>binary64 (resource / threshold)\<rfloor> + 1)
        else max (of_int \<lfloor>binary64 (binary64 (resource / threshold)
                    * binary64 (1 + binary64 (timesPrestiged' * binary64 0.05)))\<rfloor>) 0)"

text \<open>
  The same formulas read over the real numbers, with no rounding.
\<close>

definition exact_scalingFactor :: "real \<Rightarrow> bool \<Rightarrow> real" where
  "exact_scalingFactor timesPrestiged' scalingEnabled =
    (if timesPrestiged' < 5 \<or> \<not> scalingEnabled then 1 else 1 + timesPrestiged' * 0.2)"

definition exact_contribution :: "real \<Rightarrow> real \<Rightarrow> real \<Rightarrow> bool \<Rightarrow> real" where
  "exact_contribution resource baseThreshold timesPrestiged' scalingEnabled =
    (let threshold = baseThreshold * exact_scalingFactor timesPrestiged' scalingEnabled
     in if resource < threshold then 0
        else if timesPrestiged' \<le> 5 \<or> \<not> scalingEnabled
        then of_int \<lfloor>resource / threshold\<rfloor> + 1
        else max (of_int \<lfloor>(resource / threshold) * (1 + timesPrestiged' * 0.05)\<rfloor>) 0)"

subsection \<open>prestigeStore.ts: applying upgrades\<close>

text \<open>
  The object \<^verbatim>\<open>upgrades\<close> of \<^verbatim>\<open>applyPrestigeUpgrade\<close>: a map from the keys the literal lists to
  their closures, in the order of the source. A lookup \<^verbatim>\<open>upgrades[upgradeId]\<close> finds one of
  these keys or \<^verbatim>\<open>undefined\<close>; the properties that every JavaScript object inherits (an id such
  as \<^verbatim>\<open>constructor\<close>) are not modelled.
\<close>

definition upgrades :: "string \<Rightarrow> (prestigeStore \<Rightarrow> prestigeStore) option" where
  "upgrades = map_of
    [ (''storageUpgrade'', \<lambda>s. s\<lparr>game := (game s)
          \<lparr>maxSeeds := maxSeeds (game s) * 1.2,
           maxLarvae := maxLarvae (game s) * 1.2,
           maxAnts := maxAnts (game s) * 2,
           maxQueens := maxQueens (game s) + 1\<rparr>\<rparr>),
      (''eliteAntsStoreUpgrade'', \<lambda>s. s\<lparr>game := (game s)
          \<lparr>maxEliteAnts := maxEliteAnts (game s) + 1\<rparr>\<rparr>),
      (''productionBoost'', \<lambda>s. s\<lparr>game := (game s)
          \<lparr>larvaeProductionRate := larvaeProductionRate (game s) * 1.2,
           collectionRatePerAnt := collectionRatePerAnt (game s) * 1.2\<rparr>\<rparr>),
      (''queenEfficiency'', \<lambda>s. s\<lparr>game := (game s)
          \<lparr>larvaeProductionRate := larvaeProductionRate (game s) * 1.5\<rparr>\<rparr>),
      (''autoLarvae'', \<lambda>s. s\<lparr>autoLarvaeCreation := True\<rparr>),
      (''autoEliteAntsCreation'', \<lambda>s. s\<lparr>autoEliteAntsCreation := True\<rparr>),
      (''betterAnts'', \<lambda>s.
          let g1 = (game s)\<lparr>attackPerAnt := attackPerAnt (game s) * 1.1\<rparr>
          in s\<lparr>game := g1, adventure := setupAdventureStats g1 (adventure s)\<rparr>),
      (''betterAntsDefense'', \<lambda>s.
          let g1 = (game s)\<lparr>defensePerAnt := defensePerAnt (game s) * 1.1\<rparr>
          in s\<lparr>game := g1, adventure := setupAdventureStats g1 (adventure s)\<rparr>),
      (''autoAnts'', \<lambda>s. s\<lparr>autoAntCreation := True\<rparr>),
      (''autoQueens'', \<lambda>s. s\<lparr>autoQueenCreation := True\<rparr>),
      (''autoSeedStorageUpgrade'', \<lambda>s. s\<lparr>autoSeedStorageUpgrade := True\<rparr>),
      (''startWithAnts'', \<lambda>s. s\<lparr>game := (game s)\<lparr>ants := ants (game s) + 1\<rparr>,
                                  antsFromPrestigeShop := antsFromPrestigeShop s + 1\<rparr>),
      (''eliteAnts'', \<lambda>s. s\<lparr>game := (game s)\<lparr>eliteAntsUnlocked := True\<rparr>\<rparr>),
      (''royalJelly'', \<lambda>s. s\<lparr>game := (game s)\<lparr>royalJellyUnlocked := True\<rparr>\<rparr>) ]"

text \<open>\<^verbatim>\<open>this.prestigeShop.find(u => u.id === upgradeId)\<close>: the first entry with that id.\<close>

definition findUpgrade :: "string \<Rightarrow> PrestigeShopItem list \<Rightarrow> PrestigeShopItem option" where
  "findUpgrade upgradeId shop = find (\<lambda>u. item_id u = upgradeId) shop"

text \<open>
  The source holds the entry that \<^verbatim>\<open>find\<close> returned by reference and assigns to its \<^verbatim>\<open>cost\<close>:
  \<open>updateFound upgradeId f shop\<close> is the shop after \<open>f\<close> changed that first entry.
\<close>

fun updateFound ::
  "string \<Rightarrow> (PrestigeShopItem \<Rightarrow> PrestigeShopItem) \<Rightarrow> PrestigeShopItem list \<Rightarrow> PrestigeShopItem list"
  where
  "updateFound upgradeId f [] = []"
| "updateFound upgradeId f (u # us) =
    (if item_id u = upgradeId then f u # us else u # updateFound upgradeId f us)"

definition applyPrestigeUpgrade :: "string \<Rightarrow> bool \<Rightarrow> prestigeStore \<Rightarrow> prestigeStore" where
  "applyPrestigeUpgrade upgradeId fromPrestige s =
    (let s1 = logMsg (LogTryToApply upgradeId fromPrestige) s;
         prestigeInShop = findUpgrade upgradeId (prestigeShop s1);
         s2 = logMsg (LogPrestigeInShop prestigeInShop) s1
     in if fromPrestige \<and>
           (case prestigeInShop of None \<Rightarrow> False | Some u \<Rightarrow> applyOnPrestige u = Some False)
        then logMsg (LogNotApplicable upgradeId) s2
        else let s3 = logMsg (LogApplying upgradeId) s2
             in case upgrades upgradeId of
                  Some effect \<Rightarrow> effect s3
                | None \<Rightarrow> logMsg (LogInvalidUpgradeId upgradeId) s3)"

definition applyPrestigeUpgrades :: "bool \<Rightarrow> prestigeStore \<Rightarrow> prestigeStore" where
  "applyPrestigeUpgrades fromPrestige s =
    foldl (\<lambda>s' upgradeId. applyPrestigeUpgrade upgradeId fromPrestige s') s (purchasedUpgrades s)"

subsection \<open>prestigeStore.ts: buying\<close>

definition buyUpgrade :: "string \<Rightarrow> prestigeStore \<Rightarrow> bool \<times> prestigeStore" where
  "buyUpgrade upgradeId s =
    (case findUpgrade upgradeId (prestigeShop s) of
       Some upgrade \<Rightarrow>
         if prestigePoints s \<ge> cost upgrade
         then let s1 = s\<lparr>prestigePoints := prestigePoints s - cost upgrade\<rparr>;
                  defaultCostMultiplier =
                    (if item_id upgrade = ''eliteAntsStoreUpgrade'' then 3 else 1.5);
                  s2 = s1\<lparr>prestigeShop := updateFound upgradeId
                            (\<lambda>u. u\<lparr>cost := of_int \<lfloor>cost u * defaultCostMultiplier\<rfloor>\<rparr>)
                            (prestigeShop s1)\<rparr>;
                  s3 = s2\<lparr>purchasedUpgrades := purchasedUpgrades s2 @ [upgradeId]\<rparr>;
                  s4 = applyPrestigeUpgrade upgradeId False s3
              in (True, logMsg (LogPurchased (name upgrade)) s4)
         else (False, logMsg LogNotEnoughOrInvalid s)
     | None \<Rightarrow> (False, logMsg LogNotEnoughOrInvalid s))"

text \<open>
  One turn of the \<^verbatim>\<open>while\<close> loop of \<^verbatim>\<open>buyMaxUpgrade\<close>, in double arithmetic, and the loop.
  The loop may run forever, so it is a partial function: \<open>None\<close> says that it does not
  return. The source finds the entry once, before the loop, and reads its cost through the
  reference in every turn; the model finds it again in every turn, which is the same entry,
  since no turn changes an id.
\<close>

definition buyMaxTurn :: "string \<Rightarrow> prestigeStore \<Rightarrow> prestigeStore" where
  "buyMaxTurn upgradeId s =
    (case findUpgrade upgradeId (prestigeShop s) of
       None \<Rightarrow> s
     | Some upgrade \<Rightarrow>
         let s1 = s\<lparr>prestigePoints := binary64 (prestigePoints s - cost upgrade)\<rparr>;
             s2 = s1\<lparr>purchasedUpgrades := purchasedUpgrades s1 @ [upgradeId]\<rparr>;
             s3 = applyPrestigeUpgrade upgradeId False s2
         in s3\<lparr>prestigeShop := updateFound upgradeId
                  (\<lambda>u. u\<lparr>cost := of_int \<lfloor>binary64 (cost u * 1.5)\<rfloor>\<rparr>) (prestigeShop s3)\<rparr>)"

partial_function (option) buyMaxLoop :: "string \<Rightarrow> prestigeStore \<Rightarrow> prestigeStore option" where
  "buyMaxLoop upgradeId s =
    (case findUpgrade upgradeId (prestigeShop s) of
       None \<Rightarrow> Some s
     | Some upgrade \<Rightarrow>
         if prestigePoints s \<ge> cost upgrade
         then buyMaxLoop upgradeId (buyMaxTurn upgradeId s)
         else Some s)"

definition buyMaxUpgrade :: "string \<Rightarrow> prestigeStore \<Rightarrow> (bool \<times> prestigeStore) option" where
  "buyMaxUpgrade upgradeId s =
    (case findUpgrade upgradeId (prestigeShop s) of
       None \<Rightarrow> Some (False, logMsg LogInvalidUpgrade s)
     | Some upgrade \<Rightarrow>
         (case buyMaxLoop upgradeId s of
            None \<Rightarrow> None
          | Some s' \<Rightarrow> Some (True, logMsg (LogPurchasedMax (name upgrade)) s')))"


subsection \<open>prestigeStore.ts: prestige\<close>

text \<open>
  \<^verbatim>\<open>prestige\<close>. \<open>userId\<close> is what \<^verbatim>\<open>await gameStore.getUserId()\<close> gives (\<open>None\<close> for
  \<^verbatim>\<open>null\<close> or \<^verbatim>\<open>undefined\<close>); \<^verbatim>\<open>!userId\<close> holds for these and for the empty string.

  After it credited the points the action awaits \<^verbatim>\<open>gameStore.resetLocalGameState\<close>,
  \<^verbatim>\<open>gameStore.resetOtherStores\<close>, \<^verbatim>\<open>inventoryStore.applyPassiveEffects\<close> and
  \<^verbatim>\<open>gameStore.saveGameState\<close>, none of which is in the repository. The parameter \<open>awaited\<close>
  stands for these four calls: it gives the stores as the calls leave them, and whether all
  of them resolved; when one rejects, the \<^verbatim>\<open>catch\<close> of the action logs the error.
\<close>

definition prestige ::
  "string option \<Rightarrow> (prestigeStore \<Rightarrow> bool \<times> prestigeStore) \<Rightarrow> prestigeStore \<Rightarrow> prestigeStore"
  where
  "prestige userId awaited s =
    (if userId = None \<or> userId = Some []
     then logMsg ErrorUserIdNotFound s
     else let earnedPrestigePoints = calculatePrestigePoints s
          in if earnedPrestigePoints = 0
             then logMsg LogNotEnoughResources s
             else let s1 = s\<lparr>prestigePoints := prestigePoints s + earnedPrestigePoints\<rparr>;
                      s2 = s1\<lparr>timesPrestiged := timesPrestiged s1 + 1\<rparr>;
                      s3 = (if timesPrestiged s2 = 5
                            then s2\<lparr>toasts := toasts s2 @
                              [''You have unlocked the Elite Ants upgrade in the prestige shop!'']\<rparr>
                            else s2)
                  in case awaited s3 of
                       (True, s4) \<Rightarrow> logMsg (LogPrestigeSuccessful earnedPrestigePoints) s4
                     | (False, s4) \<Rightarrow> logMsg ErrorDuringPrestige s4)"

text \<open>
  Modelled from the spec: \<^verbatim>\<open>gameStore.resetLocalGameState\<close>, which \<^verbatim>\<open>prestige\<close> awaits, belongs to
  a game store that is not in the repository. The specification says that a prestige resets
  the ledger "to their initial constants" and then re-applies "every upgrade in
  \<^verbatim>\<open>purchasedUpgrades\<close> in original purchase order with \<^verbatim>\<open>fromPrestige=true\<close>". \<open>init\<close> is the
  game store of those initial constants; the replay is \<open>applyPrestigeUpgrades True\<close>, the
  action of prestigeStore.ts. \<open>awaitedReset\<close> is the awaited part of \<^verbatim>\<open>prestige\<close> when every call
  resolves and the reset is the only one that touches these stores.
\<close>

definition resetLocalGameState :: "gameStore \<Rightarrow> prestigeStore \<Rightarrow> prestigeStore" where
  "resetLocalGameState init s = applyPrestigeUpgrades True (s\<lparr>game := init\<rparr>)"

definition awaitedReset :: "gameStore \<Rightarrow> prestigeStore \<Rightarrow> bool \<times> prestigeStore" where
  "awaitedReset init s = (True, resetLocalGameState init s)"

subsection \<open>prestigeStore.ts: saving and loading\<close>

record savedPrestigeState =
  stored_prestigePoints :: "number option"
  stored_timesPrestiged :: "number option"
  stored_purchasedUpgrades :: "string list option"
  stored_storagePrestigeCost :: "number option"
  stored_eliteAntsStoreUpgradeCost :: "number option"
  stored_productionPrestigeCost :: "number option"
  stored_queenPrestigeCost :: "number option"
  stored_betterAntsPrestigeCost :: "number option"
  stored_betterAntsDefensePrestigeCost :: "number option"
  stored_startWithAntsPrestigeCost :: "number option"
  stored_autoLarvaeCreation :: "bool option"
  stored_autoAntCreation :: "bool option"
  stored_autoEliteAntsCreation :: "bool option"
  stored_autoQueenCreation :: "bool option"
  stored_autoSeedStorageUpgrade :: "bool option"
  stored_eliteAntsUnlocked :: "bool option"
  stored_royalJellyUnlocked :: "bool option"

definition emptySavedPrestigeState :: savedPrestigeState where
  "emptySavedPrestigeState =
    \<lparr> stored_prestigePoints = None, stored_timesPrestiged = None,
      stored_purchasedUpgrades = None, stored_storagePrestigeCost = None,
      stored_eliteAntsStoreUpgradeCost = None, stored_productionPrestigeCost = None,
      stored_queenPrestigeCost = None, stored_betterAntsPrestigeCost = None,
      stored_betterAntsDefensePrestigeCost = None, stored_startWithAntsPrestigeCost = None,
      stored_autoLarvaeCreation = None, stored_autoAntCreation = None,
      stored_autoEliteAntsCreation = None, stored_autoQueenCreation = None,
      stored_autoSeedStorageUpgrade = None, stored_eliteAntsUnlocked = None,
      stored_royalJellyUnlocked = None \<rparr>"

text \<open>\<^verbatim>\<open>this.prestigeShop.find(u => u.id === k)?.cost ?? d\<close> in the prestige store.\<close>

definition prestigeCostOr :: "PrestigeShopItem list \<Rightarrow> string \<Rightarrow> number \<Rightarrow> number" where
  "prestigeCostOr shop k d = (case findUpgrade k shop of None \<Rightarrow> d | Some u \<Rightarrow> cost u)"

definition getPrestigeState :: "prestigeStore \<Rightarrow> savedPrestigeState" where
  "getPrestigeState s =
    \<lparr> stored_prestigePoints = Some (prestigePoints s),
      stored_timesPrestiged = Some (timesPrestiged s),
      stored_purchasedUpgrades = Some (purchasedUpgrades s),
      stored_storagePrestigeCost = Some (prestigeCostOr (prestigeShop s) ''storageUpgrade'' 5),
      stored_eliteAntsStoreUpgradeCost =
        Some (prestigeCostOr (prestigeShop s) ''eliteAntsStoreUpgrade'' 100),
      stored_productionPrestigeCost =
        Some (prestigeCostOr (prestigeShop s) ''productionBoost'' 10),
      stored_queenPrestigeCost = Some (prestigeCostOr (prestigeShop s) ''queenEfficiency'' 15),
      stored_betterAntsPrestigeCost = Some (prestigeCostOr (prestigeShop s) ''betterAnts'' 50),
      stored_betterAntsDefensePrestigeCost =
        Some (prestigeCostOr (prestigeShop s) ''betterAntsDefense'' 50),
      stored_startWithAntsPrestigeCost =
        Some (prestigeCostOr (prestigeShop s) ''startWithAnts'' 15),
      stored_autoLarvaeCreation = Some (autoLarvaeCreation s),
      stored_autoAntCreation = Some (autoAntCreation s),
      stored_autoEliteAntsCreation = Some (autoEliteAntsCreation s),
      stored_autoQueenCreation = Some (autoQueenCreation s),
      stored_autoSeedStorageUpgrade = Some (autoSeedStorageUpgrade s),
      stored_eliteAntsUnlocked = Some (upgradePurchased s ''eliteAnts''),
      stored_royalJellyUnlocked = Some (upgradePurchased s ''royalJelly'') \<rparr>"

text \<open>\<^verbatim>\<open>if (shop.id === k) shop.cost = v\<close>, the statement both shop loops are made of.\<close>

definition setCostIf :: "string \<Rightarrow> number \<Rightarrow> PrestigeShopItem \<Rightarrow> PrestigeShopItem" where
  "setCostIf k v shop = (if item_id shop = k then shop\<lparr>cost := v\<rparr> else shop)"

text \<open>The callback of \<^verbatim>\<open>this.prestigeShop.forEach(shop => {...})\<close> in \<^verbatim>\<open>loadPrestigeState\<close>.\<close>

definition loadPrestigeCost :: "savedPrestigeState \<Rightarrow> PrestigeShopItem \<Rightarrow> PrestigeShopItem" where
  "loadPrestigeCost savedState =
    setCostIf ''startWithAnts'' (nullish (stored_startWithAntsPrestigeCost savedState) 15)
    \<circ> setCostIf ''betterAntsDefense''
        (nullish (stored_betterAntsDefensePrestigeCost savedState) 50)
    \<circ> setCostIf ''betterAnts'' (nullish (stored_betterAntsPrestigeCost savedState) 50)
    \<circ> setCostIf ''queenEfficiency'' (nullish (stored_queenPrestigeCost savedState) 15)
    \<circ> setCostIf ''productionBoost'' (nullish (stored_productionPrestigeCost savedState) 10)
    \<circ> setCostIf ''eliteAntsStoreUpgrade''
        (nullish (stored_eliteAntsStoreUpgradeCost savedState) 100)
    \<circ> setCostIf ''storageUpgrade'' (nullish (stored_storagePrestigeCost savedState) 5)"

definition loadPrestigeState :: "savedPrestigeState \<Rightarrow> prestigeStore \<Rightarrow> prestigeStore" where
  "loadPrestigeState savedState s =
    s\<lparr>prestigePoints := nullish (stored_prestigePoints savedState) (prestigePoints s),
      timesPrestiged := nullish (stored_timesPrestiged savedState) (timesPrestiged s),
      purchasedUpgrades := nullish (stored_purchasedUpgrades savedState) (purchasedUpgrades s),
      autoLarvaeCreation := nullish (stored_autoLarvaeCreation savedState) (autoLarvaeCreation s),
      autoAntCreation := nullish (stored_autoAntCreation savedState) (autoAntCreation s),
      autoQueenCreation := nullish (stored_autoQueenCreation savedState) (autoQueenCreation s),
      autoSeedStorageUpgrade :=
        nullish (stored_autoSeedStorageUpgrade savedState) (autoSeedStorageUpgrade s),
      autoEliteAntsCreation :=
        nullish (stored_autoEliteAntsCreation savedState) (autoEliteAntsCreation s),
      prestigeShop := map (loadPrestigeCost savedState) (prestigeShop s)\<rparr>"

definition resetPrestigeShopCosts :: "prestigeStore \<Rightarrow> prestigeStore" where
  "resetPrestigeShopCosts s =
    s\<lparr>prestigeShop := map
        ( setCostIf ''royalJelly'' 1000
        \<circ> setCostIf ''autoEliteAntsCreation'' 100
        \<circ> setCostIf ''autoSeedStorageUpgrade'' 10
        \<circ> setCostIf ''eliteAnts'' 500
        \<circ> setCostIf ''startWithAnts'' 15
        \<circ> setCostIf ''autoQueens'' 20
        \<circ> setCostIf ''autoAnts'' 20
        \<circ> setCostIf ''betterAntsDefense'' 50
        \<circ> setCostIf ''betterAnts'' 50
        \<circ> setCostIf ''autoLarvae'' 10
        \<circ> setCostIf ''queenEfficiency'' 15
        \<circ> setCostIf ''productionBoost'' 10
        \<circ> setCostIf ''eliteAntsStoreUpgrade'' 100
        \<circ> setCostIf ''storageUpgrade'' 5 ) (prestigeShop s)\<rparr>"

subsection \<open>The achievement store\<close>

text \<open>
  \<^verbatim>\<open>interface Achievement\<close>, without the display text \<^verbatim>\<open>description\<close>. An unlock condition reads
  the other stores; \<open>'e\<close> is the type of what it reads, and a condition is a predicate on it.
\<close>

record 'e Achievement =
  achievement_id :: string
  achievement_name :: string
  isUnlocked :: bool
  unlockCondition :: "'e \<Rightarrow> bool"

text \<open>
  \<^verbatim>\<open>checkAchievements\<close>: one turn of the \<^verbatim>\<open>forEach\<close> gives the achievement after it and the
  toasts it showed; \<open>env\<close> is the state of the other stores, which no turn changes.
\<close>

definition checkAchievement :: "'e \<Rightarrow> 'e Achievement \<Rightarrow> 'e Achievement \<times> string list" where
  "checkAchievement env achievement =
    (if \<not> isUnlocked achievement \<and> unlockCondition achievement env
     then (achievement\<lparr>isUnlocked := True\<rparr>,
           [''Achievement Unlocked: '' @ achievement_name achievement])
     else (achievement, []))"

definition checkAchievements :: "'e \<Rightarrow> 'e Achievement list \<Rightarrow> 'e Achievement list \<times> string list"
  where
  "checkAchievements env achievements =
    (map (fst \<circ> checkAchievement env) achievements,
     concat (map (snd \<circ> checkAchievement env) achievements))"

record savedAchievement =
  savedAchievement_id :: string
  savedAchievement_isUnlocked :: bool

definition getAchievementState :: "'e Achievement list \<Rightarrow> savedAchievement list" where
  "getAchievementState achievements =
    filter savedAchievement_isUnlocked
      (map (\<lambda>achievement. \<lparr>savedAchievement_id = achievement_id achievement,
                            savedAchievement_isUnlocked = isUnlocked achievement\<rparr>) achievements)"

text \<open>
  \<^verbatim>\<open>loadAchievementState(state)\<close>: \<open>None\<close> is a \<^verbatim>\<open>state\<close> that is \<^verbatim>\<open>undefined\<close> or has no
  \<^verbatim>\<open>achievements\<close>, where \<^verbatim>\<open>state?.achievements?.find(...)\<close> is \<^verbatim>\<open>undefined\<close>.
\<close>

definition loadAchievementState ::
  "savedAchievement list option \<Rightarrow> 'e Achievement list \<Rightarrow> 'e Achievement list" where
  "loadAchievementState state achievements =
    map (\<lambda>achievement.
          case (case state of
                  None \<Rightarrow> None
                | Some saved \<Rightarrow>
                    find (\<lambda>sv. savedAchievement_id sv = achievement_id achievement) saved) of
            Some savedAchievement \<Rightarrow>
              achievement\<lparr>isUnlocked := savedAchievement_isUnlocked savedAchievement\<rparr>
          | None \<Rightarrow> achievement) achievements"

text \<open>
  What happens to the achievement store over time: an evaluation against the current state
  of the other stores, or a save followed by a load of what was saved.
\<close>

datatype 'e achievementEvent = Check 'e | SaveAndLoad

fun achievementStep :: "'e achievementEvent \<Rightarrow> 'e Achievement list \<Rightarrow> 'e Achievement list" where
  "achievementStep (Check env) achievements = fst (checkAchievements env achievements)"
| "achievementStep SaveAndLoad achievements =
    loadAchievementState (Some (getAchievementState achievements)) achievements"

definition achievementRun ::
  "'e achievementEvent list \<Rightarrow> 'e Achievement list \<Rightarrow> 'e Achievement list" where
  "achievementRun events achievements = foldl (\<lambda>as e. achievementStep e as) achievements events"

text \<open>The first two achievements of the store; their conditions read the seeds.\<close>

definition seedAchievements :: "number Achievement list" where
  "seedAchievements =
    [ \<lparr>achievement_id = ''first_100_seeds'', achievement_name = ''Seed Collector'',
        isUnlocked = False, unlockCondition = (\<lambda>seeds'. seeds' \<ge> 100)\<rparr>,
      \<lparr>achievement_id = ''first_1000_seeds'', achievement_name = ''Seed Hoarder'',
        isUnlocked = False, unlockCondition = (\<lambda>seeds'. seeds' \<ge> 1000)\<rparr> ]"


subsection \<open>States to evaluate the actions at\<close>

text \<open>An adventure store with no army.\<close>

definition noArmy :: adventureStore where
  "noArmy = \<lparr>armyMaxHealth = 0, armyHealth = 0, armyAttack = 0, armyDefense = 0\<rparr>"

text \<open>
  The game store as it starts at time 0, with room for 100 ants, 10 queens and 1 elite ant,
  and the prestige store as it starts beside it.
\<close>

definition freshGame :: gameStore where
  "freshGame = initialGameStore 0 100 10 1"

definition freshPrestige :: prestigeStore where
  "freshPrestige = initialPrestigeStore freshGame noArmy"

text \<open>
  A prestige store beside a game store with 60 ants, and the same store after four
  purchases, the second of which (\<^verbatim>\<open>betterAnts\<close>) has \<^verbatim>\<open>applyOnPrestige: false\<close> and the
  third of which (\<^verbatim>\<open>tunnels\<close>) is in the shop and not among the keys of \<^verbatim>\<open>upgrades\<close>.
\<close>

definition sixtyAnts :: prestigeStore where
  "sixtyAnts = freshPrestige\<lparr>game := freshGame\<lparr>ants := 60\<rparr>\<rparr>"


text \<open>
  The fresh prestige store with 250 points, and the game store of a session whose clock was
  set back by two minutes after the last save, with 5 of 10 larvae.
\<close>

definition richPrestige :: prestigeStore where
  "richPrestige = freshPrestige\<lparr>prestigePoints := 250\<rparr>"

definition clockSetBack :: gameStore where
  "clockSetBack = freshGame\<lparr>lastSavedTime := 120000, larvae := 5\<rparr>"

text \<open>
  The fresh game store with the cap of the larvae at the double 17.279999999999998, which is
  \<^verbatim>\<open>10 * 1.2 * 1.2 * 1.2\<close>, and 1.0600000000000005 larvae, both written as fractions.
\<close>

definition roundedPool :: gameStore where
  "roundedPool = freshGame\<lparr>maxLarvae := 4863887597560135 / 281474976710656,
                             larvae := 596726950626591 / 562949953421312\<rparr>"





subsection \<open>Notions the theorems are stated with\<close>

text \<open>
  Both pools of gameStore.ts within their caps.
\<close>

definition poolsWithinCaps :: "gameStore \<Rightarrow> bool" where
  "poolsWithinCaps g =
    (0 \<le> larvae g \<and> larvae g \<le> maxLarvae g \<and> 0 \<le> seeds g \<and> seeds g \<le> maxSeeds g)"

text \<open>
  The actions on the resources, and a run of them from a state.
\<close>

datatype gameAction =
    Tick | CreateLarvae | CreateMaxLarvae | CreateAnts | CreateMaxAnts | BuyQueen | BuyMaxQueens
  | CollectSeedsManually number | UpgradeSeedStorage | UpgradeLarvaeStorage

fun gameStep :: "gameAction \<Rightarrow> gameStore \<Rightarrow> gameStore" where
  "gameStep Tick = gameLoopTick"
| "gameStep CreateLarvae = createLarvae"
| "gameStep CreateMaxLarvae = createMaxLarvae"
| "gameStep CreateAnts = createAnts"
| "gameStep CreateMaxAnts = createMaxAnts"
| "gameStep BuyQueen = buyQueen"
| "gameStep BuyMaxQueens = buyMaxQueens"
| "gameStep (CollectSeedsManually amount) = collectSeedsManually amount"
| "gameStep UpgradeSeedStorage = upgradeSeedStorage"
| "gameStep UpgradeLarvaeStorage = upgradeLarvaeStorage"

definition gameRun :: "gameAction list \<Rightarrow> gameStore \<Rightarrow> gameStore" where
  "gameRun actions g = foldl (\<lambda>g' a. gameStep a g') g actions"

text \<open>
  \<open>effectOf upgradeId\<close> is what the call \<^verbatim>\<open>upgrades[upgradeId]()\<close> changes, nothing for an id
  that has no entry. \<open>carriesOver shop upgradeId\<close> is the negation of the guard
  \<^verbatim>\<open>prestigeInShop?.applyOnPrestige === false\<close>. \<open>appliedIds\<close>, \<open>skippedIds\<close> and
  \<open>invalidIds\<close> read a stretch of console output: the ids after "Applying upgrade:", which
  is logged for every id that passes the guard, before the lookup in \<^verbatim>\<open>upgrades\<close>; the ids
  after "Upgrade not applicable for prestige purchase:"; and the ids after "Invalid upgrade
  ID:", which is logged when the lookup finds nothing; each in the order they were logged.
  \<open>applyMessages\<close> is the output of one call of \<^verbatim>\<open>applyPrestigeUpgrade\<close>.
  \<open>replayed ks upgradeId f v\<close> is the value \<open>v\<close> after \<open>f\<close> was applied to it once for every
  occurrence of \<open>upgradeId\<close> in \<open>ks\<close>.
\<close>

definition effectOf :: "string \<Rightarrow> prestigeStore \<Rightarrow> prestigeStore" where
  "effectOf upgradeId = (case upgrades upgradeId of Some effect \<Rightarrow> effect | None \<Rightarrow> (\<lambda>s. s))"

definition carriesOver :: "PrestigeShopItem list \<Rightarrow> string \<Rightarrow> bool" where
  "carriesOver shop upgradeId =
    (case findUpgrade upgradeId shop of None \<Rightarrow> True | Some u \<Rightarrow> applyOnPrestige u \<noteq> Some False)"





definition applyMessages :: "PrestigeShopItem list \<Rightarrow> bool \<Rightarrow> string \<Rightarrow> console_msg list" where
  "applyMessages shop fromPrestige upgradeId =
    [LogTryToApply upgradeId fromPrestige, LogPrestigeInShop (findUpgrade upgradeId shop)] @
    (if fromPrestige \<and> \<not> carriesOver shop upgradeId then [LogNotApplicable upgradeId]
     else LogApplying upgradeId #
          (case upgrades upgradeId of None \<Rightarrow> [LogInvalidUpgradeId upgradeId] | Some _ \<Rightarrow> []))"

text \<open>
  The store in the middle of a successful \<^verbatim>\<open>prestige\<close>: the points are credited and the
  prestige is counted and announced; nothing is awaited yet.
\<close>

definition credited :: "prestigeStore \<Rightarrow> prestigeStore" where
  "credited s =
    (let s1 = s\<lparr>prestigePoints := prestigePoints s + calculatePrestigePoints s,
                 timesPrestiged := timesPrestiged s + 1\<rparr>
     in if timesPrestiged s1 = 5
        then s1\<lparr>toasts := toasts s1 @
          [''You have unlocked the Elite Ants upgrade in the prestige shop!'']\<rparr>
        else s1)"

text \<open>
  The factor of \<^verbatim>\<open>buyUpgrade\<close> (\<^verbatim>\<open>defaultCostMultiplier\<close> after the \<^verbatim>\<open>switch\<close>), and an entry
  after its cost was multiplied by a factor and rounded down.
\<close>

definition growthFactor :: "string \<Rightarrow> number" where
  "growthFactor upgradeId = (if upgradeId = ''eliteAntsStoreUpgrade'' then 3 else 1.5)"

definition grownCost :: "number \<Rightarrow> PrestigeShopItem \<Rightarrow> PrestigeShopItem" where
  "grownCost factor = (\<lambda>u. u\<lparr>cost := of_int \<lfloor>cost u * factor\<rfloor>\<rparr>)"

text \<open>
  An entry after a turn of the loop of \<^verbatim>\<open>buyMaxUpgrade\<close>: its cost times 1.5, rounded to a
  double and then down to a whole number.
\<close>

definition grownInLoop :: "PrestigeShopItem \<Rightarrow> PrestigeShopItem" where
  "grownInLoop = (\<lambda>u. u\<lparr>cost := of_int \<lfloor>binary64 (cost u * 1.5)\<rfloor>\<rparr>)"

section \<open>Properties of the rounding\<close>

text \<open>
  Rounding to the nearest integer fixes the integers, is monotone and odd, and moves a real
  by at most one half.
\<close>

lemma roundHalfEven_of_int [simp]: "roundHalfEven (of_int n) = n"
  by (simp add: roundHalfEven_def)

lemma roundHalfEven_bounds: "\<lfloor>y\<rfloor> \<le> roundHalfEven y" "roundHalfEven y \<le> \<lfloor>y\<rfloor> + 1"
  by (simp_all add: roundHalfEven_def Let_def)


lemma roundHalfEven_minus: "roundHalfEven (- y) = - roundHalfEven y"
proof (cases "y \<in> \<int>")
  case True
  then obtain n where "y = of_int n" by (auto elim: Ints_cases)
  then have "- y = of_int (- n)" by simp
  then show ?thesis using \<open>y = of_int n\<close> by (simp only: roundHalfEven_of_int)
next
  case False
  then have "y \<noteq> of_int \<lfloor>y\<rfloor>" by (metis Ints_of_int)
  then have f: "\<lfloor>- y\<rfloor> = - \<lfloor>y\<rfloor> - 1"
    by (simp add: floor_minus ceiling_altdef)
  show ?thesis
    unfolding roundHalfEven_def Let_def f by (auto simp: algebra_simps)
qed

lemma roundHalfEven_error: "\<bar>of_int (roundHalfEven y) - y\<bar> \<le> 1 / 2"
  unfolding roundHalfEven_def Let_def by (auto simp: abs_if) linarith+

text \<open>
  The exponent of \<open>x\<close> is the \<open>e\<close> between \<open>- 1022\<close> and \<open>1023\<close> with
  \<open>2 powi e \<le> \<bar>x\<bar> < 2 powi (e + 1)\<close>, the least one for a subnormal \<open>x\<close>.
\<close>

lemma exponentBelow_bounds: "- 1022 \<le> exponentBelow n a" "exponentBelow n a \<le> int n - 1022"
  by (induction n) auto

lemma exponentBelow_lower: "exponentBelow n a \<noteq> - 1022 \<Longrightarrow> 2 powi (exponentBelow n a) \<le> a"
  by (induction n) (auto split: if_splits)

lemma exponentBelow_upper: "a < 2 powi (int n - 1021) \<Longrightarrow> a < 2 powi (exponentBelow n a + 1)"
proof (induction n)
  case 0
  then show ?case by simp
next
  case (Suc n)
  have "int (Suc n) - 1021 = int n - 1021 + 1" by simp
  with Suc show ?case by (auto simp: not_le)
qed


lemma exponent_range: "- 1022 \<le> exponent x" "exponent x \<le> 1023"
  using exponentBelow_bounds [of 2045 "\<bar>x\<bar>"] by (simp_all add: exponent_def)

lemma exponent_lower: "exponent x \<noteq> - 1022 \<Longrightarrow> 2 powi (exponent x) \<le> \<bar>x\<bar>"
  unfolding exponent_def by (rule exponentBelow_lower)

lemma exponent_upper: "\<bar>x\<bar> < 2 powi 1024 \<Longrightarrow> \<bar>x\<bar> < 2 powi (exponent x + 1)"
  unfolding exponent_def using exponentBelow_upper [of "\<bar>x\<bar>" 2045] by simp


lemma exponent_minus [simp]: "exponent (- x) = exponent x"
  by (simp add: exponent_def)

lemma powi_less_cancel:
  assumes "(2::real) powi a < 2 powi b"
  shows "a < b"
proof (rule ccontr)
  assume "\<not> a < b"
  then have "(2::real) powi b \<le> 2 powi a" by (intro power_int_increasing) simp_all
  with assms show False by simp
qed

lemma powi_le_cancel:
  assumes "(2::real) powi a \<le> 2 powi b"
  shows "a \<le> b"
proof (rule ccontr)
  assume "\<not> a \<le> b"
  then have "(2::real) powi b < 2 powi a" by (intro power_int_strict_increasing) simp_all
  with assms show False by simp
qed

lemma exponent_eqI:
  assumes "2 powi e \<le> \<bar>x\<bar>" and "\<bar>x\<bar> < 2 powi (e + 1)" and "- 1022 \<le> e" and "e \<le> 1023"
  shows "exponent x = e"
proof -
  have "(2::real) powi (e + 1) \<le> 2 powi 1024"
    using assms(4) by (intro power_int_increasing) simp_all
  with assms(2) have "\<bar>x\<bar> < 2 powi 1024" by simp
  then have up: "\<bar>x\<bar> < 2 powi (exponent x + 1)" by (rule exponent_upper)
  with assms(1) have "(2::real) powi e < 2 powi (exponent x + 1)" by simp
  then have le: "e \<le> exponent x" using powi_less_cancel by fastforce
  show ?thesis
  proof (cases "exponent x = - 1022")
    case True
    with le assms(3) show ?thesis by simp
  next
    case False
    then have "2 powi (exponent x) \<le> \<bar>x\<bar>" by (rule exponent_lower)
    with assms(2) have "(2::real) powi (exponent x) < 2 powi (e + 1)" by simp
    then have "exponent x < e + 1" by (rule powi_less_cancel)
    with le show ?thesis by simp
  qed
qed

lemma exponent_subnormal:
  assumes "\<bar>x\<bar> < 2 powi (- 1021)"
  shows "exponent x = - 1022"
proof (rule ccontr)
  assume ne: "exponent x \<noteq> - 1022"
  then have "2 powi (exponent x) \<le> \<bar>x\<bar>" by (rule exponent_lower)
  moreover have "- 1021 \<le> exponent x" using ne exponent_range(1) [of x] by simp
  then have "(2::real) powi (- 1021) \<le> 2 powi (exponent x)"
    by (intro power_int_increasing) simp_all
  ultimately show False using assms by simp
qed

lemma exponent_0 [simp]: "exponent 0 = - 1022"
  by (rule exponent_subnormal) simp

text \<open>
  The rounding to a double is odd and monotone, and it keeps the sign.
\<close>

lemma roundHalfEven_0 [simp]: "roundHalfEven 0 = 0"
  by (simp add: roundHalfEven_def)



lemma binary64_0 [simp]: "binary64 0 = 0"
  by (simp add: binary64_def)

lemma binary64_minus: "binary64 (- x) = - binary64 x"
  by (simp add: binary64_def Let_def roundHalfEven_minus)

lemma binary64_nonneg:
  assumes "0 \<le> x"
  shows "0 \<le> binary64 x"
proof -
  let ?q = "(2::real) powi (exponent x - 52)"
  have "0 \<le> x / ?q" using assms by simp
  then have "0 \<le> \<lfloor>x / ?q\<rfloor>" by simp
  then have "0 \<le> roundHalfEven (x / ?q)" using roundHalfEven_bounds(1) [of "x / ?q"] by linarith
  then show ?thesis by (simp add: binary64_def Let_def)
qed

lemma binary64_nonpos: "x \<le> 0 \<Longrightarrow> binary64 x \<le> 0"
  using binary64_nonneg [of "- x"] by (simp add: binary64_minus)

lemma binary64_exact:
  assumes "x / 2 powi (exponent x - 52) \<in> \<int>"
  shows "binary64 x = x"
proof -
  from assms obtain n where n: "x / 2 powi (exponent x - 52) = of_int n"
    by (auto elim: Ints_cases)
  then have "binary64 x = of_int n * 2 powi (exponent x - 52)"
    by (simp add: binary64_def Let_def)
  also have "\<dots> = x" using n by (simp add: field_simps)
  finally show ?thesis .
qed






text \<open>
  A whole multiple of a power of two, with a factor of magnitude at most \<open>2 ^ 53\<close>, is a
  double: so is every whole number up to \<open>2 ^ 53\<close> and every half of one.
\<close>

lemma binary64_dyadic:
  assumes "\<bar>m\<bar> \<le> 9007199254740992" and "- 1074 \<le> j"
  shows "binary64 (of_int m * 2 powi j) = of_int m * 2 powi j"
proof (rule binary64_exact)
  let ?x = "of_int m * (2::real) powi j"
  let ?r = "exponent ?x"
  have split: "?x / 2 powi (?r - 52) = of_int m * 2 powi (j - ?r + 52)"
    using power_int_diff [of "2::real" j "?r - 52"] by (simp add: algebra_simps)
  show "?x / 2 powi (?r - 52) \<in> \<int>"
  proof (cases "0 \<le> j - ?r + 52")
    case True
    then have "(2::real) powi (j - ?r + 52) = of_int (2 ^ nat (j - ?r + 52))"
      by (simp add: power_int_nonneg_exp)
    then have "?x / 2 powi (?r - 52) = of_int (m * 2 ^ nat (j - ?r + 52))"
      unfolding split by simp
    then show ?thesis by (metis Ints_of_int)
  next
    case False
    then have big: "j + 53 \<le> ?r" by simp
    then have "?r \<noteq> - 1022" using assms(2) by simp
    then have low: "2 powi ?r \<le> \<bar>?x\<bar>" by (rule exponent_lower)
    have absx: "\<bar>?x\<bar> = of_int \<bar>m\<bar> * 2 powi j" by (simp add: abs_mult)
    have "of_int \<bar>m\<bar> * (2::real) powi j \<le> of_int 9007199254740992 * 2 powi j"
      using assms(1) by (intro mult_right_mono) (simp_all only: of_int_le_iff zero_le_power_int zero_le_numeral)
    also have "\<dots> = 2 powi (j + 53)"
      using power_int_add [of "2::real" 53 j] by (simp add: add.commute)
    finally have up: "\<bar>?x\<bar> \<le> 2 powi (j + 53)" unfolding absx .
    have "(2::real) powi (j + 53) \<le> 2 powi ?r"
      using big by (intro power_int_increasing) simp_all
    with low up have eq: "\<bar>?x\<bar> = 2 powi (j + 53)" by simp
    then have "of_int \<bar>m\<bar> * (2::real) powi j = of_int 9007199254740992 * 2 powi j"
      unfolding absx using power_int_add [of "2::real" 53 j] by (simp add: add.commute)
    then have "(of_int \<bar>m\<bar> :: real) = of_int 9007199254740992" by simp
    then have m: "\<bar>m\<bar> = 9007199254740992" by (simp only: of_int_eq_iff)
    have "(2::real) powi ?r \<le> 2 powi (j + 53)" using low eq by simp
    then have "?r \<le> j + 53" by (rule powi_le_cancel)
    with big have r: "j - ?r + 52 = - 1" by simp
    have "?x / 2 powi (?r - 52) = of_int m / 2" unfolding split r by simp
    moreover have "m = 9007199254740992 \<or> m = - 9007199254740992" using m by linarith
    ultimately have "?x / 2 powi (?r - 52) = of_int 4503599627370496
        \<or> ?x / 2 powi (?r - 52) = of_int (- 4503599627370496)"
      by auto
    then show ?thesis by (metis Ints_of_int)
  qed
qed

lemma binary64_of_int:
  assumes "\<bar>n\<bar> \<le> 9007199254740992"
  shows "binary64 (of_int n) = of_int n"
  using binary64_dyadic [OF assms, of 0] by simp

lemma binary64_numeral [simp]:
  "numeral k \<le> (9007199254740992::int) \<Longrightarrow> binary64 (numeral k) = numeral k"
  using binary64_of_int [of "numeral k"] by simp

lemma binary64_1 [simp]: "binary64 1 = 1"
  using binary64_of_int [of 1] by simp

lemma binary64_neg_numeral [simp]:
  "numeral k \<le> (9007199254740992::int) \<Longrightarrow> binary64 (- numeral k) = - numeral k"
  by (simp add: binary64_minus)


text \<open>
  To round a given number, name its exponent.
\<close>

lemma binary64_eval:
  assumes "2 powi e \<le> \<bar>x\<bar>" and "\<bar>x\<bar> < 2 powi (e + 1)" and "- 1022 \<le> e" and "e \<le> 1023"
  shows "binary64 x = of_int (roundHalfEven (x / 2 powi (e - 52))) * 2 powi (e - 52)"
  by (simp add: binary64_def Let_def exponent_eqI [OF assms])

lemma roundHalfEven_down:
  "of_int n \<le> y \<Longrightarrow> y < of_int n + 1 / 2 \<Longrightarrow> roundHalfEven y = n"
  "of_int n - 1 / 2 < y \<Longrightarrow> y \<le> of_int n \<Longrightarrow> roundHalfEven y = n"
proof -
  assume a: "of_int n \<le> y" "y < of_int n + 1 / 2"
  then have "\<lfloor>y\<rfloor> = n" by linarith
  with a show "roundHalfEven y = n" by (simp add: roundHalfEven_def Let_def)
next
  assume a: "of_int n - 1 / 2 < y" "y \<le> of_int n"
  show "roundHalfEven y = n"
  proof (cases "y = of_int n")
    case True
    then show ?thesis by simp
  next
    case False
    with a have "\<lfloor>y\<rfloor> = n - 1" by linarith
    with a show ?thesis by (simp add: roundHalfEven_def Let_def)
  qed
qed

section \<open>Resource pools and their caps\<close>

lemmas game_defs = freshGame_def initialGameStore_def poolsWithinCaps_def gameRun_def
  collectSeedsManually_def createLarvae_def createMaxLarvae_def gameLoopTick_def Let_def

text \<open>
  Claim C1. Every pool is to stay between 0 and its cap under every action. The code does
  not keep this: \<^verbatim>\<open>collectSeedsManually(amount)\<close> compares \<^verbatim>\<open>seeds + seedsToAdd\<close> with the cap
  and then adds \<open>amount\<close>. From the initial state, which is within its caps, a call with
  amount 5000 leaves 5010 seeds under a cap of 1000.
\<close>

theorem collectSeedsManually_exceeds_cap:
  "poolsWithinCaps freshGame
   \<and> seeds (collectSeedsManually 5000 freshGame) = 5010
   \<and> maxSeeds (collectSeedsManually 5000 freshGame) = 1000
   \<and> \<not> poolsWithinCaps (collectSeedsManually 5000 freshGame)"
  by (simp add: game_defs)

text \<open>
  \<^verbatim>\<open>createLarvae\<close> adds a whole larva whenever \<^verbatim>\<open>larvae < maxLarvae\<close>, and the tick adds
  fractions of a larva: a run in which every state but the last is within its caps ends
  with \<open>10 + 1/60\<close> larvae under a cap of 10.
\<close>

lemma createLarvae_exceeds_cap:
  "poolsWithinCaps (gameRun [CollectSeedsManually 890] freshGame)
   \<and> poolsWithinCaps (gameRun [CollectSeedsManually 890, Tick] freshGame)
   \<and> poolsWithinCaps (gameRun [CollectSeedsManually 890, Tick, CreateMaxLarvae] freshGame)
   \<and> poolsWithinCaps
        (gameRun [CollectSeedsManually 890, Tick, CreateMaxLarvae, CollectSeedsManually 100]
           freshGame)
   \<and> larvae (gameRun [CollectSeedsManually 890, Tick, CreateMaxLarvae, CollectSeedsManually 100,
                       CreateLarvae] freshGame) = 10 + 1 / 60
   \<and> maxLarvae (gameRun [CollectSeedsManually 890, Tick, CreateMaxLarvae,
                          CollectSeedsManually 100, CreateLarvae] freshGame) = 10"
  by (simp add: game_defs)

text \<open>
  The tick itself keeps both pools within their caps when production is not negative and a
  larva costs seeds.
\<close>

lemma gameLoopTick_within_caps:
  assumes "poolsWithinCaps g" and "0 \<le> larvaeProductionRate g * queens g"
    and "0 \<le> collectionRatePerAnt g * ants g" and "0 < seedCostPerLarva g"
  shows "poolsWithinCaps (gameLoopTick g)"
proof -
  have fl: "of_int \<lfloor>x / c\<rfloor> * c \<le> x" if "0 < c" for x c :: real
    using that of_int_floor_le [of "x / c"] by (simp only: pos_le_divide_eq)
  have cm: "poolsWithinCaps (createMaxLarvae h)" if "poolsWithinCaps h" "0 < seedCostPerLarva h" for h
  proof -
    let ?n = "min (of_int \<lfloor>seeds h / seedCostPerLarva h\<rfloor>) (maxLarvae h - larvae h)"
    have "?n * seedCostPerLarva h \<le> of_int \<lfloor>seeds h / seedCostPerLarva h\<rfloor> * seedCostPerLarva h"
      using that(2) by (intro mult_right_mono) simp_all
    also have "\<dots> \<le> seeds h" using that(2) by (rule fl)
    finally have "?n * seedCostPerLarva h \<le> seeds h" .
    moreover have "0 < ?n \<Longrightarrow> 0 \<le> ?n * seedCostPerLarva h" using that(2) by simp
    ultimately show ?thesis
      using that(1) unfolding poolsWithinCaps_def createMaxLarvae_def Let_def
      by (auto simp: min_def split: if_splits)
  qed
  let ?g2 = "g\<lparr>larvae := min (larvae g + larvaeProductionRate g * queens g / 60) (maxLarvae g),
               seeds := min (seeds g + (collectionRatePerAnt g * ants g) / 60) (maxSeeds g)\<rparr>"
  have g2: "poolsWithinCaps ?g2"
    using assms(1-3) unfolding poolsWithinCaps_def by (auto simp: min_def)
  have "gameLoopTick g = (if gameStore.autoLarvaeCreation g then createMaxLarvae ?g2 else ?g2)"
    by (simp add: gameLoopTick_def Let_def)
  then show ?thesis using g2 cm [of ?g2] assms(4) by simp
qed

section \<open>Offline progress\<close>

text \<open>
  The elapsed minutes are not negative when the clock did not go back, and the floored
  product of the grant is not negative when the production is not.
\<close>

lemma timeElapsed_nonneg:
  assumes "lastSavedTime g \<le> now"
  shows "0 \<le> timeElapsed now g"
proof -
  have "0 \<le> binary64 (now - lastSavedTime g)" using assms by (intro binary64_nonneg) simp
  then have "0 \<le> binary64 (now - lastSavedTime g) / 60000" by simp
  then show ?thesis unfolding timeElapsed_def by (rule binary64_nonneg)
qed

lemma timeElapsed_now [simp]: "timeElapsed now (g\<lparr>lastSavedTime := now\<rparr>) = 0"
  by (simp add: timeElapsed_def)

lemma produced_nonneg:
  assumes "0 \<le> e" and "0 \<le> r * n"
  shows "0 \<le> \<lfloor>binary64 (binary64 (e * r) * n)\<rfloor>"
proof -
  from assms(2) consider "0 \<le> r" "0 \<le> n" | "r \<le> 0" "n \<le> 0"
    by (auto simp: zero_le_mult_iff)
  then have "0 \<le> binary64 (e * r) * n"
  proof cases
    case 1
    then have "0 \<le> binary64 (e * r)" using assms(1) by (intro binary64_nonneg) simp
    with 1 show ?thesis by simp
  next
    case 2
    then have "binary64 (e * r) \<le> 0"
      using assms(1) by (intro binary64_nonpos) (simp add: mult_nonneg_nonpos)
    with 2 show ?thesis by (simp add: mult_nonpos_nonpos)
  qed
  then have "0 \<le> binary64 (binary64 (e * r) * n)" by (rule binary64_nonneg)
  then show ?thesis by simp
qed

text \<open>
  In a second call at the same time no minute has elapsed: the grant is the smaller of 0 and
  the headroom that the first call left.
\<close>

lemma second_larvaeProduced:
  "larvaeProduced now (calculateOfflineProgress now g) =
     min 0 (binary64 (maxLarvae g - larvae (calculateOfflineProgress now g)))"
  by (simp add: larvaeProduced_def calculateOfflineProgress_def timeElapsed_def)

lemma second_seedsCollected:
  "seedsCollected now (calculateOfflineProgress now g) =
     min 0 (binary64 (maxSeeds g - seeds (calculateOfflineProgress now g)))"
  by (simp add: seedsCollected_def calculateOfflineProgress_def timeElapsed_def)

text \<open>
  Claim C6, amended. \<^verbatim>\<open>calculateOfflineProgress\<close> at time \<open>now\<close> adds to each pool the grant
  \<open>min (floor (elapsedMinutes * rate * producers)) (cap - amount)\<close>, where \<open>elapsedMinutes\<close> is
  \<open>(now - lastSavedTime) / 60000\<close>, the rate is that of one queen or one ant and every
  operation is rounded to a double, the sum of pool and grant too. The grant never exceeds
  the headroom \<open>cap - amount\<close> as the program computes it. It is not negative when \<open>now\<close> is
  not before \<open>lastSavedTime\<close>, the production is not negative and the pool is not above its
  cap. Afterwards \<open>lastSavedTime\<close> is \<open>now\<close>, and a second call with the same \<open>now\<close> grants
  the smaller of 0 and the headroom: nothing to a pool that is within its cap.
\<close>

theorem calculateOfflineProgress_grants:
  "larvae (calculateOfflineProgress now g) = binary64 (larvae g + larvaeProduced now g)
   \<and> seeds (calculateOfflineProgress now g) = binary64 (seeds g + seedsCollected now g)
   \<and> timeElapsed now g = binary64 (binary64 (now - lastSavedTime g) / 60000)
   \<and> larvaeProduced now g =
       min (of_int \<lfloor>binary64 (binary64 (timeElapsed now g * larvaeProductionRate g) * queens g)\<rfloor>)
           (binary64 (maxLarvae g - larvae g))
   \<and> seedsCollected now g =
       min (of_int \<lfloor>binary64 (binary64 (timeElapsed now g * collectionRatePerAnt g) * ants g)\<rfloor>)
           (binary64 (maxSeeds g - seeds g))
   \<and> larvaeProduced now g \<le> binary64 (maxLarvae g - larvae g)
   \<and> seedsCollected now g \<le> binary64 (maxSeeds g - seeds g)
   \<and> (lastSavedTime g \<le> now \<and> 0 \<le> larvaeProductionRate g * queens g \<and> larvae g \<le> maxLarvae g
        \<longrightarrow> 0 \<le> larvaeProduced now g)
   \<and> (lastSavedTime g \<le> now \<and> 0 \<le> collectionRatePerAnt g * ants g \<and> seeds g \<le> maxSeeds g
        \<longrightarrow> 0 \<le> seedsCollected now g)
   \<and> lastSavedTime (calculateOfflineProgress now g) = now
   \<and> larvaeProduced now (calculateOfflineProgress now g) =
       min 0 (binary64 (maxLarvae g - larvae (calculateOfflineProgress now g)))
   \<and> seedsCollected now (calculateOfflineProgress now g) =
       min 0 (binary64 (maxSeeds g - seeds (calculateOfflineProgress now g)))
   \<and> (larvae (calculateOfflineProgress now g) \<le> maxLarvae g
        \<longrightarrow> larvaeProduced now (calculateOfflineProgress now g) = 0)
   \<and> (seeds (calculateOfflineProgress now g) \<le> maxSeeds g
        \<longrightarrow> seedsCollected now (calculateOfflineProgress now g) = 0)"
proof (intro conjI impI)
  show "larvae (calculateOfflineProgress now g) = binary64 (larvae g + larvaeProduced now g)"
    and "seeds (calculateOfflineProgress now g) = binary64 (seeds g + seedsCollected now g)"
    and "lastSavedTime (calculateOfflineProgress now g) = now"
    by (simp_all add: calculateOfflineProgress_def)
  show "timeElapsed now g = binary64 (binary64 (now - lastSavedTime g) / 60000)"
    by (simp add: timeElapsed_def)
  show "larvaeProduced now g =
       min (of_int \<lfloor>binary64 (binary64 (timeElapsed now g * larvaeProductionRate g) * queens g)\<rfloor>)
           (binary64 (maxLarvae g - larvae g))"
    by (simp add: larvaeProduced_def)
  show "seedsCollected now g =
       min (of_int \<lfloor>binary64 (binary64 (timeElapsed now g * collectionRatePerAnt g) * ants g)\<rfloor>)
           (binary64 (maxSeeds g - seeds g))"
    by (simp add: seedsCollected_def)
  show "larvaeProduced now g \<le> binary64 (maxLarvae g - larvae g)"
    by (simp add: larvaeProduced_def)
  show "seedsCollected now g \<le> binary64 (maxSeeds g - seeds g)"
    by (simp add: seedsCollected_def)
  show l2: "larvaeProduced now (calculateOfflineProgress now g) =
       min 0 (binary64 (maxLarvae g - larvae (calculateOfflineProgress now g)))"
    by (rule second_larvaeProduced)
  show s2: "seedsCollected now (calculateOfflineProgress now g) =
       min 0 (binary64 (maxSeeds g - seeds (calculateOfflineProgress now g)))"
    by (rule second_seedsCollected)
  {
    assume "larvae (calculateOfflineProgress now g) \<le> maxLarvae g"
    then have "0 \<le> binary64 (maxLarvae g - larvae (calculateOfflineProgress now g))"
      by (intro binary64_nonneg) simp
    then show "larvaeProduced now (calculateOfflineProgress now g) = 0"
      unfolding l2 by simp
  }
  {
    assume "seeds (calculateOfflineProgress now g) \<le> maxSeeds g"
    then have "0 \<le> binary64 (maxSeeds g - seeds (calculateOfflineProgress now g))"
      by (intro binary64_nonneg) simp
    then show "seedsCollected now (calculateOfflineProgress now g) = 0"
      unfolding s2 by simp
  }
  {
    assume a: "lastSavedTime g \<le> now \<and> 0 \<le> larvaeProductionRate g * queens g
          \<and> larvae g \<le> maxLarvae g"
    then have "0 \<le> timeElapsed now g" by (intro timeElapsed_nonneg) simp
    with a have "0 \<le> \<lfloor>binary64 (binary64 (timeElapsed now g * larvaeProductionRate g) * queens g)\<rfloor>"
      by (intro produced_nonneg) simp_all
    moreover have "0 \<le> binary64 (maxLarvae g - larvae g)" using a by (intro binary64_nonneg) simp
    ultimately show "0 \<le> larvaeProduced now g" by (simp add: larvaeProduced_def)
  }
  {
    assume a: "lastSavedTime g \<le> now \<and> 0 \<le> collectionRatePerAnt g * ants g
          \<and> seeds g \<le> maxSeeds g"
    then have "0 \<le> timeElapsed now g" by (intro timeElapsed_nonneg) simp
    with a have "0 \<le> \<lfloor>binary64 (binary64 (timeElapsed now g * collectionRatePerAnt g) * ants g)\<rfloor>"
      by (intro produced_nonneg) simp_all
    moreover have "0 \<le> binary64 (maxSeeds g - seeds g)" using a by (intro binary64_nonneg) simp
    ultimately show "0 \<le> seedsCollected now g" by (simp add: seedsCollected_def)
  }
qed

text \<open>
  Two minutes after the save, with one queen, the rate 1, no larvae and the cap 10, the
  grant is 2 larvae, and a second call grants nothing.
\<close>

theorem calculateOfflineProgress_grants_witness:
  "lastSavedTime freshGame \<le> 120000
   \<and> 0 \<le> larvaeProductionRate freshGame * queens freshGame
   \<and> larvae freshGame \<le> maxLarvae freshGame
   \<and> 0 \<le> collectionRatePerAnt freshGame * ants freshGame
   \<and> seeds freshGame \<le> maxSeeds freshGame
   \<and> timeElapsed 120000 freshGame = 2
   \<and> larvaeProduced 120000 freshGame = 2
   \<and> seedsCollected 120000 freshGame = 0
   \<and> larvae (calculateOfflineProgress 120000 freshGame) = 2
   \<and> seeds (calculateOfflineProgress 120000 freshGame) = 10
   \<and> lastSavedTime (calculateOfflineProgress 120000 freshGame) = 120000
   \<and> larvae (calculateOfflineProgress 120000 freshGame) \<le> maxLarvae freshGame
   \<and> seeds (calculateOfflineProgress 120000 freshGame) \<le> maxSeeds freshGame
   \<and> larvaeProduced 120000 (calculateOfflineProgress 120000 freshGame) = 0
   \<and> seedsCollected 120000 (calculateOfflineProgress 120000 freshGame) = 0"
  using calculateOfflineProgress_grants [of 120000 freshGame]
  by (simp add: freshGame_def initialGameStore_def timeElapsed_def)

text \<open>
  The rounding decides: 34.2 seconds after the save five ants, at 60 seeds a minute each,
  have collected 170 seeds. The elapsed time is the double 0.57, and the two products round
  to 34.199999999999996 and 170.99999999999997. In exact arithmetic the product would be
  171.
\<close>

lemma seedsCollected_rounds:
  "seedsCollected 34200 (freshGame\<lparr>ants := 5\<rparr>) = 170"
proof -
  have a: "binary64 (57 / 100) = 5134103575202365 / 9007199254740992"
    by (subst binary64_eval [where e = "- 1"]) (simp_all add: roundHalfEven_def)
  have b: "binary64 (binary64 (57 / 100) * 60) = 4813222101752217 / 140737488355328"
    by (simp add: a, subst binary64_eval [where e = 5]) (simp_all add: roundHalfEven_def)
  have c: "binary64 (binary64 (binary64 (57 / 100) * 60) * 5) = 6016527627190271 / 35184372088832"
    by (simp add: b, subst binary64_eval [where e = 7]) (simp_all add: roundHalfEven_def)
  have "\<lfloor>6016527627190271 / 35184372088832 :: real\<rfloor> = 170" by linarith
  then show ?thesis
    by (simp add: seedsCollected_def timeElapsed_def freshGame_def initialGameStore_def c)
qed

text \<open>
  The three roundings of two calls on \<open>roundedPool\<close>: the headroom, the pool after the first
  grant, and the headroom after it.
\<close>

lemma headroom_rounded:
  "binary64 (4863887597560135 / 281474976710656 - 596726950626591 / 562949953421312)
     = 570690515280855 / 35184372088832"
  by (simp, subst binary64_eval [where e = 4]) (simp_all add: roundHalfEven_def)

lemma pool_rounded:
  "binary64 (596726950626591 / 562949953421312 + 570690515280855 / 35184372088832)
     = 607985949695017 / 35184372088832"
  by (simp, subst binary64_eval [where e = 4]) (simp_all add: roundHalfEven_def)

lemma headroom_after:
  "binary64 (4863887597560135 / 281474976710656 - 607985949695017 / 35184372088832)
     = - 1 / 281474976710656"
  using binary64_dyadic [of "- 1" "- 48"] by simp

text \<open>
  As stated for every state and every \<open>now\<close>, the grant would never be negative, and a second
  call would grant nothing. With the clock two minutes before the last save, 5 larvae are 3
  afterwards: the grant is \<open>-2\<close>. And twenty minutes after the save, with 1.0600000000000005
  larvae under the cap 17.279999999999998, the grant is the headroom as computed, and the sum
  of larvae and grant rounds to 17.28, one unit in the last place above the cap: the second
  call with the same \<open>now\<close> grants \<open>- 1 / 2 ^ 48\<close>, which is about \<open>-3.55e-15\<close>. And the
  grant is the formula of the claim only in double arithmetic: 34.2 seconds after the save
  five ants are granted 170 seeds, where the formula over the real numbers gives 171.
\<close>

theorem calculateOfflineProgress_negative_grant:
  "larvaeProduced 0 clockSetBack = - 2
   \<and> larvae clockSetBack = 5
   \<and> larvae (calculateOfflineProgress 0 clockSetBack) = 3
   \<and> larvaeProduced 1200000 roundedPool = 570690515280855 / 35184372088832
   \<and> larvae (calculateOfflineProgress 1200000 roundedPool) = 607985949695017 / 35184372088832
   \<and> maxLarvae roundedPool < larvae (calculateOfflineProgress 1200000 roundedPool)
   \<and> larvaeProduced 1200000 (calculateOfflineProgress 1200000 roundedPool)
       = - 1 / 281474976710656
   \<and> seedsCollected 34200 (freshGame\<lparr>ants := 5\<rparr>) = 170
   \<and> min (of_int \<lfloor>(34200 - lastSavedTime (freshGame\<lparr>ants := 5\<rparr>)) / 60000
                      * collectionRatePerAnt (freshGame\<lparr>ants := 5\<rparr>)
                      * ants (freshGame\<lparr>ants := 5\<rparr>)\<rfloor>)
          (maxSeeds (freshGame\<lparr>ants := 5\<rparr>) - seeds (freshGame\<lparr>ants := 5\<rparr>)) = 171"
proof -
  have a: "larvaeProduced 0 clockSetBack = - 2"
    by (simp add: clockSetBack_def freshGame_def initialGameStore_def larvaeProduced_def
        timeElapsed_def)
  have b: "larvae (calculateOfflineProgress 0 clockSetBack) = 3"
    by (simp add: calculateOfflineProgress_def a) (simp add: clockSetBack_def)
  have c: "larvaeProduced 1200000 roundedPool = 570690515280855 / 35184372088832"
    using headroom_rounded
    by (simp add: roundedPool_def freshGame_def initialGameStore_def larvaeProduced_def
        timeElapsed_def)
  have d: "larvae (calculateOfflineProgress 1200000 roundedPool)
      = 607985949695017 / 35184372088832"
    using pool_rounded by (simp add: calculateOfflineProgress_def c) (simp add: roundedPool_def)
  have e: "larvaeProduced 1200000 (calculateOfflineProgress 1200000 roundedPool)
      = - 1 / 281474976710656"
    unfolding second_larvaeProduced d using headroom_after by (simp add: roundedPool_def)
  have f: "min (of_int \<lfloor>(34200 - lastSavedTime (freshGame\<lparr>ants := 5\<rparr>)) / 60000
                      * collectionRatePerAnt (freshGame\<lparr>ants := 5\<rparr>)
                      * ants (freshGame\<lparr>ants := 5\<rparr>)\<rfloor>)
          (maxSeeds (freshGame\<lparr>ants := 5\<rparr>) - seeds (freshGame\<lparr>ants := 5\<rparr>)) = (171::real)"
    by (simp add: freshGame_def initialGameStore_def)
  show ?thesis
    using a b c d e f seedsCollected_rounds by (simp add: clockSetBack_def roundedPool_def)
qed

section \<open>Loading\<close>

text \<open>
  Claim C8. Every loader is to fall back, field by field, to the value in memory. In
  \<^verbatim>\<open>loadGameState\<close> the five shop costs are assigned without \<^verbatim>\<open>??\<close>: loading the blob
  \<^verbatim>\<open>{}\<close> into the fresh game store turns the costs 10, 15, 20 and 100 of its shop into
  \<^verbatim>\<open>undefined\<close>, while a field with a fallback, such as the seeds, keeps its value.
  \<^verbatim>\<open>loadPrestigeState\<close>, on the same kind of blob, keeps every cost of its shop.
\<close>

theorem loadGameState_drops_shop_costs:
  "map GameShopItem.cost
     (gameStore.prestigeShop
        (fst (loadGameState (GetBlob emptySavedGameState) (\<lambda>a. a) 0 (freshGame, noArmy))))
     = [None, None, None, None]
   \<and> map GameShopItem.cost (gameStore.prestigeShop freshGame)
     = [Some 10, Some 15, Some 20, Some 100]
   \<and> seeds (fst (loadGameState (GetBlob emptySavedGameState) (\<lambda>a. a) 0 (freshGame, noArmy)))
     = seeds freshGame
   \<and> map PrestigeShopItem.cost
        (prestigeShop (loadPrestigeState emptySavedPrestigeState freshPrestige))
     = map PrestigeShopItem.cost (prestigeShop freshPrestige)"
  by (simp add: loadGameState_def loadShopCost_def emptySavedGameState_def freshGame_def
      initialGameStore_def nullish_def calculateOfflineProgress_def larvaeProduced_def
      seedsCollected_def Let_def loadPrestigeState_def loadPrestigeCost_def setCostIf_def
      emptySavedPrestigeState_def freshPrestige_def initialPrestigeStore_def
      initialPrestigeShop_def)

section \<open>Prestige points\<close>

text \<open>The quotient of scenario B: \<^verbatim>\<open>60 / 50\<close> is the double 1.2.\<close>

lemma binary64_six_fifths: "binary64 (6 / 5) = 5404319552844595 / 4503599627370496"
  by (subst binary64_eval [where e = 0]) (simp_all add: roundHalfEven_def)

lemma calculatePrestigePointsFor_eq_spec:
  "calculatePrestigePointsFor r b t sc = spec_contribution r b t sc"
  by (simp add: calculatePrestigePointsFor_def spec_contribution_def spec_scalingFactor_def
      Let_def max_def)

text \<open>
  Claim C7, amended. With the thresholds of the store (50 for ants, 2 for queens),
  \<open>calculatePrestigePoints\<close> is the sum of the contribution of the ants, with scaling, and of
  the queens, without, where a contribution is the formula of the specification evaluated
  in double arithmetic, every operation rounded: the threshold is the base threshold times
  the scaling factor (1 below five prestiges or without scaling, else
  \<open>1 + timesPrestiged * 0.2\<close>), nothing is earned below the threshold,
  \<open>floor (resource / threshold) + 1\<close> up to five prestiges or without scaling, and
  \<open>max (floor ((resource / threshold) * (1 + timesPrestiged * 0.05))) 0\<close> after that. With
  no prestige yet, 60 ants and the threshold 50, the ants contribute 2.
\<close>

theorem calculatePrestigePoints_formula:
  assumes "baseAntThreshold s = 50" and "baseQueenThreshold s = 2"
  shows "calculatePrestigePoints s =
           binary64 (spec_contribution (ants (game s)) 50 (timesPrestiged s) True
                     + spec_contribution (queens (game s)) 2 (timesPrestiged s) False)
       \<and> calculatePrestigePointsFor 60 50 0 True = 2"
proof
  show "calculatePrestigePoints s =
           binary64 (spec_contribution (ants (game s)) 50 (timesPrestiged s) True
                     + spec_contribution (queens (game s)) 2 (timesPrestiged s) False)"
    using assms by (simp add: calculatePrestigePoints_def calculatePrestigePointsFor_eq_spec)
  show "calculatePrestigePointsFor 60 50 0 True = 2"
    by (simp add: calculatePrestigePointsFor_def binary64_six_fifths)
qed

text \<open>The fresh stores with 60 ants: the ants earn 2 points and the single queen none.\<close>

theorem calculatePrestigePoints_formula_witness:
  "baseAntThreshold (freshPrestige\<lparr>game := freshGame\<lparr>ants := 60\<rparr>\<rparr>) = 50
   \<and> baseQueenThreshold (freshPrestige\<lparr>game := freshGame\<lparr>ants := 60\<rparr>\<rparr>) = 2
   \<and> calculatePrestigePoints (freshPrestige\<lparr>game := freshGame\<lparr>ants := 60\<rparr>\<rparr>) = 2"
  using calculatePrestigePoints_formula [of "freshPrestige\<lparr>game := freshGame\<lparr>ants := 60\<rparr>\<rparr>"]
  by (simp add: freshPrestige_def freshGame_def initialPrestigeStore_def initialGameStore_def
      spec_contribution_def spec_scalingFactor_def binary64_six_fifths)

lemma threshold_after_six:
  "binary64 (50 * binary64 (1 + binary64 (6 * binary64 0.2))) = 7740561859543041 / 70368744177664"
proof -
  have a: "binary64 (1 / 5) = 3602879701896397 / 18014398509481984"
    by (subst binary64_eval [where e = "- 3"]) (simp_all add: roundHalfEven_def)
  have b: "binary64 (6 * binary64 (1 / 5)) = 1351079888211149 / 1125899906842624"
    by (simp add: a, subst binary64_eval [where e = 0]) (simp_all add: roundHalfEven_def)
  have c: "binary64 (1 + binary64 (6 * binary64 (1 / 5))) = 2476979795053773 / 1125899906842624"
    by (simp add: b, subst binary64_eval [where e = 1]) (simp_all add: roundHalfEven_def)
  show ?thesis
    by (simp add: c, subst binary64_eval [where e = 6]) (simp_all add: roundHalfEven_def)
qed

text \<open>
  As stated, with the formulas read over the real numbers, 110 ants after six prestiges
  would meet the threshold \<open>50 * (1 + 6 * 0.2) = 110\<close> and contribute
  \<open>floor ((110 / 110) * 1.3) = 1\<close>. The program computes the threshold
  \<^verbatim>\<open>50 * (1 + 6 * 0.2)\<close> as the double 110.00000000000001, and the 110 ants are below it: they
  contribute nothing.
\<close>

theorem calculatePrestigePointsFor_rounds:
  "calculatePrestigePointsFor 110 50 6 True = 0
   \<and> exact_contribution 110 50 6 True = 1
   \<and> calculatePrestigePointsFor 110 50 6 True \<noteq> exact_contribution 110 50 6 True"
proof -
  have "calculatePrestigePointsFor 110 50 6 True = 0"
    using threshold_after_six by (simp add: calculatePrestigePointsFor_def Let_def)
  moreover have "exact_contribution 110 50 6 True = 1"
    by (simp add: exact_contribution_def exact_scalingFactor_def)
  ultimately show ?thesis by simp
qed

section \<open>Applying upgrades\<close>

lemma upgrades_frame:
  assumes "upgrades k = Some f"
  shows "prestigePoints (f s) = prestigePoints s"
    and "prestigeShop (f s) = prestigeShop s"
    and "purchasedUpgrades (f s) = purchasedUpgrades s"
    and "timesPrestiged (f s) = timesPrestiged s"
    and "console (f s) = console s"
    and "toasts (f s) = toasts s"
  using assms unfolding upgrades_def
  by (auto simp: Let_def split: if_splits)

lemma upgrades_console:
  assumes "upgrades k = Some f"
  shows "f (s\<lparr>console := c\<rparr>) = (f s)\<lparr>console := c\<rparr>"
  using assms unfolding upgrades_def
  by (auto simp: Let_def split: if_splits)

lemma effectOf_frame:
  "prestigePoints (effectOf k s) = prestigePoints s"
  "prestigeShop (effectOf k s) = prestigeShop s"
  "purchasedUpgrades (effectOf k s) = purchasedUpgrades s"
  "timesPrestiged (effectOf k s) = timesPrestiged s"
  "console (effectOf k s) = console s"
  "toasts (effectOf k s) = toasts s"
  by (simp_all add: effectOf_def upgrades_frame split: option.split)

lemma effectOf_console: "effectOf k (s\<lparr>console := c\<rparr>) = (effectOf k s)\<lparr>console := c\<rparr>"
  by (simp add: effectOf_def upgrades_console split: option.split)

lemma effectOf_shop:
  "effectOf k (t\<lparr>prestigeShop := sh\<rparr>) = (effectOf k t)\<lparr>prestigeShop := sh\<rparr>"
  by (simp add: effectOf_def split: option.split)
    (auto simp: upgrades_def Let_def split: if_splits)


lemma effectOf_invalid: "upgrades k = None \<Longrightarrow> effectOf k s = s"
  by (simp add: effectOf_def)


lemma applyPrestigeUpgrade_eq:
  "applyPrestigeUpgrade k fromPrestige s =
    (if fromPrestige \<and> \<not> carriesOver (prestigeShop s) k then s else effectOf k s)
      \<lparr>console := console s @ applyMessages (prestigeShop s) fromPrestige k\<rparr>"
  by (auto simp: applyPrestigeUpgrade_def Let_def logMsg_def carriesOver_def applyMessages_def
      effectOf_def upgrades_console upgrades_frame split: option.splits)

lemma findUpgrade_id: "findUpgrade k shop = Some u \<Longrightarrow> item_id u = k"
  unfolding findUpgrade_def by (induction shop) (auto split: if_splits)

lemma findUpgrade_updateFound:
  assumes "\<And>u. item_id (f u) = item_id u"
  shows "findUpgrade k (updateFound k f shop) = map_option f (findUpgrade k shop)"
  unfolding findUpgrade_def using assms by (induction shop) auto






section \<open>Prestige\<close>

lemma replay_eq:
  "foldl (\<lambda>s' k. applyPrestigeUpgrade k True s') s ks =
    (foldl (\<lambda>s' k. effectOf k s') s (filter (carriesOver (prestigeShop s)) ks))
      \<lparr>console := console s @ concat (map (applyMessages (prestigeShop s) True) ks)\<rparr>"
proof (induction ks arbitrary: s)
  case Nil
  show ?case by simp
next
  case (Cons k ks)
  let ?s1 = "applyPrestigeUpgrade k True s"
  have shop: "prestigeShop ?s1 = prestigeShop s"
    by (simp add: applyPrestigeUpgrade_eq effectOf_frame)
  have fold_console: "foldl (\<lambda>s' k. effectOf k s') (t\<lparr>console := c\<rparr>) js =
      (foldl (\<lambda>s' k. effectOf k s') t js)\<lparr>console := c\<rparr>" for t c js
    by (induction js arbitrary: t) (simp_all add: effectOf_console)
  show ?case
    by (simp add: Cons.IH shop, simp add: applyPrestigeUpgrade_eq fold_console effectOf_frame)
qed







text \<open>
  The replay of prestigeStore.ts, \<^verbatim>\<open>applyPrestigeUpgrades(true)\<close>, on every store: it runs the
  effects of the entries that carry over, in the order of the history, and logs each entry.
\<close>

lemma applyPrestigeUpgrades_replays:
  "applyPrestigeUpgrades True t =
    (foldl (\<lambda>s' k. effectOf k s') t (filter (carriesOver (prestigeShop t)) (purchasedUpgrades t)))
      \<lparr>console := console t @
         concat (map (applyMessages (prestigeShop t) True) (purchasedUpgrades t))\<rparr>"
  by (simp add: applyPrestigeUpgrades_def replay_eq)

lemma replay_frame:
  "prestigePoints (foldl (\<lambda>s' k. effectOf k s') s ks) = prestigePoints s"
  "prestigeShop (foldl (\<lambda>s' k. effectOf k s') s ks) = prestigeShop s"
  "purchasedUpgrades (foldl (\<lambda>s' k. effectOf k s') s ks) = purchasedUpgrades s"
  "timesPrestiged (foldl (\<lambda>s' k. effectOf k s') s ks) = timesPrestiged s"
  "console (foldl (\<lambda>s' k. effectOf k s') s ks) = console s"
  "toasts (foldl (\<lambda>s' k. effectOf k s') s ks) = toasts s"
  by (induction ks arbitrary: s) (simp_all add: effectOf_frame)

lemma credited_frame:
  "prestigeShop (credited s) = prestigeShop s"
  "purchasedUpgrades (credited s) = purchasedUpgrades s"
  "console (credited s) = console s"
  "timesPrestiged (credited s) = timesPrestiged s + 1"
  "prestigePoints (credited s) = prestigePoints s + calculatePrestigePoints s"
  by (simp_all add: credited_def Let_def)


lemma prestige_credits:
  assumes "userId \<noteq> None" and "userId \<noteq> Some []" and "calculatePrestigePoints s \<noteq> 0"
  shows "prestige userId awaited s =
    logMsg (if fst (awaited (credited s)) then LogPrestigeSuccessful (calculatePrestigePoints s)
            else ErrorDuringPrestige)
      (snd (awaited (credited s)))"
proof (cases userId)
  case None
  with assms show ?thesis by simp
next
  case (Some u)
  with assms show ?thesis
    by (simp add: prestige_def Let_def credited_def split: prod.split bool.split)
qed


lemma sixtyAnts_points: "calculatePrestigePoints sixtyAnts = 2"
  by (simp add: sixtyAnts_def freshPrestige_def freshGame_def initialPrestigeStore_def
      initialGameStore_def calculatePrestigePoints_def calculatePrestigePointsFor_def
      binary64_six_fifths)








text \<open>
  The reset of gameStore.ts itself, \<^verbatim>\<open>resetGameState\<close>, replays the game store's own history
  through \<^verbatim>\<open>applyPrestigeUpgrades()\<close>, which has no \<^verbatim>\<open>fromPrestige\<close> and skips nothing: after
  a storage upgrade and stronger ants, the reset seed cap 1000 grows to 1200 and the reset
  attack 2 to 2.2.
\<close>

lemma resetGameState_replays_all:
  "maxSeeds (fst (resetGameState 0 True True (\<lambda>a. a) False
      (freshGame\<lparr>gameStore.purchasedUpgrades := [''storageUpgrade'', ''betterAnts''],
                 maxSeeds := 5000, attackPerAnt := 7\<rparr>, noArmy))) = 1200
   \<and> attackPerAnt (fst (resetGameState 0 True True (\<lambda>a. a) False
      (freshGame\<lparr>gameStore.purchasedUpgrades := [''storageUpgrade'', ''betterAnts''],
                 maxSeeds := 5000, attackPerAnt := 7\<rparr>, noArmy))) = 2.2"
  by (simp add: resetGameState_def gameStore_applyPrestigeUpgrades_def
      gameStore_applyPrestigeUpgrade_def setupAdventureStats_def freshGame_def
      initialGameStore_def Let_def)

lemma resetLocalGameState_timesPrestiged:
  "timesPrestiged (resetLocalGameState init t) = timesPrestiged t"
  by (simp add: resetLocalGameState_def applyPrestigeUpgrades_def replay_eq replay_frame)

text \<open>
  Claim C2, amended. \<^verbatim>\<open>prestige\<close> leaves every store as it was (only the console gets a
  line) exactly when \<^verbatim>\<open>getUserId()\<close> gives no user id or \<open>calculatePrestigePoints\<close> is 0;
  with a user id and points other than 0 it changes the state. The calls it awaits are
  outside the repository: what is asked of them is that they leave the count of prestiges
  alone.
\<close>

theorem prestige_noop_iff:
  assumes "\<And>t. timesPrestiged (snd (awaited t)) = timesPrestiged t"
  shows "(prestige userId awaited s)\<lparr>console := console s\<rparr> = s \<longleftrightarrow>
     (userId = None \<or> userId = Some [] \<or> calculatePrestigePoints s = 0)"
proof (cases "userId = None \<or> userId = Some [] \<or> calculatePrestigePoints s = 0")
  case True
  then show ?thesis by (auto simp: prestige_def logMsg_def Let_def)
next
  case False
  then have "timesPrestiged (prestige userId awaited s) = timesPrestiged s + 1"
    by (simp add: prestige_credits logMsg_def assms credited_frame)
  then have "timesPrestiged ((prestige userId awaited s)\<lparr>console := console s\<rparr>)
      \<noteq> timesPrestiged s"
    by simp
  then have "(prestige userId awaited s)\<lparr>console := console s\<rparr> \<noteq> s"
    by metis
  with False show ?thesis by simp
qed

text \<open>
  With a user id, 60 ants make the prestige change the state; with the empty user id, or
  with no ants, nothing changes.
\<close>

theorem prestige_noop_iff_witness:
  "(prestige (Some ''player-1'') (awaitedReset freshGame) sixtyAnts)
      \<lparr>console := console sixtyAnts\<rparr> \<noteq> sixtyAnts
   \<and> (prestige (Some '''') (awaitedReset freshGame) sixtyAnts)
      \<lparr>console := console sixtyAnts\<rparr> = sixtyAnts
   \<and> (prestige (Some ''player-1'') (awaitedReset freshGame) freshPrestige)
      \<lparr>console := console freshPrestige\<rparr> = freshPrestige"
proof -
  have keeps: "timesPrestiged (snd (awaitedReset freshGame t)) = timesPrestiged t" for t
    by (simp add: awaitedReset_def resetLocalGameState_timesPrestiged)
  have "calculatePrestigePoints freshPrestige = 0"
    by (simp add: freshPrestige_def freshGame_def initialPrestigeStore_def
        initialGameStore_def calculatePrestigePoints_def calculatePrestigePointsFor_def)
  then show ?thesis
    using prestige_noop_iff [where awaited = "awaitedReset freshGame"
        and userId = "Some ''player-1''" and s = sixtyAnts, OF keeps]
      prestige_noop_iff [where awaited = "awaitedReset freshGame"
        and userId = "Some ''''" and s = sixtyAnts, OF keeps]
      prestige_noop_iff [where awaited = "awaitedReset freshGame"
        and userId = "Some ''player-1''" and s = freshPrestige, OF keeps]
      sixtyAnts_points
    by simp
qed

text \<open>
  As stated, the prestige would change the state whenever the points are not 0. With 60
  ants the points are 2, and without a user id the store is as it was, whatever the awaited
  calls would do.
\<close>

theorem prestige_without_user_is_noop:
  "calculatePrestigePoints sixtyAnts = 2
   \<and> prestige None (awaitedReset freshGame) sixtyAnts = logMsg ErrorUserIdNotFound sixtyAnts
   \<and> (prestige None (awaitedReset freshGame) sixtyAnts)\<lparr>console := console sixtyAnts\<rparr>
       = sixtyAnts"
  by (simp add: sixtyAnts_points prestige_def logMsg_def)

section \<open>Buying an upgrade\<close>

lemma buyUpgrade_refused:
  assumes "findUpgrade k (prestigeShop s) = None
           \<or> (\<exists>u. findUpgrade k (prestigeShop s) = Some u \<and> prestigePoints s < cost u)"
  shows "buyUpgrade k s = (False, logMsg LogNotEnoughOrInvalid s)"
  using assms by (auto simp: buyUpgrade_def)

lemma buyUpgrade_bought:
  assumes "findUpgrade k (prestigeShop s) = Some u" and "cost u \<le> prestigePoints s"
  shows "buyUpgrade k s =
    (True, (effectOf k (s\<lparr>prestigePoints := prestigePoints s - cost u,
                           prestigeShop := updateFound k (grownCost (growthFactor k)) (prestigeShop s),
                           purchasedUpgrades := purchasedUpgrades s @ [k]\<rparr>))
        \<lparr>console := console s @
           applyMessages (updateFound k (grownCost (growthFactor k)) (prestigeShop s)) False k @
           [LogPurchased (name u)]\<rparr>)"
proof -
  have "item_id u = k" using assms(1) by (rule findUpgrade_id)
  then show ?thesis
    using assms
    by (simp add: buyUpgrade_def Let_def applyPrestigeUpgrade_eq logMsg_def growthFactor_def
        grownCost_def effectOf_frame cong: if_cong)
qed

lemma grownCost_id: "item_id (grownCost c u) = item_id u"
  by (simp add: grownCost_def)

lemma bought_frame:
  assumes "findUpgrade k (prestigeShop s) = Some u" and "cost u \<le> prestigePoints s"
  shows "fst (buyUpgrade k s)"
    and "prestigePoints (snd (buyUpgrade k s)) = prestigePoints s - cost u"
    and "purchasedUpgrades (snd (buyUpgrade k s)) = purchasedUpgrades s @ [k]"
    and "findUpgrade k (prestigeShop (snd (buyUpgrade k s))) = Some (grownCost (growthFactor k) u)"
  by (simp_all add: buyUpgrade_bought [OF assms] effectOf_frame findUpgrade_updateFound
      grownCost_id assms(1))

lemma fresh_find_autoAnts:
  "findUpgrade ''autoAnts'' (prestigeShop (freshPrestige\<lparr>prestigePoints := p\<rparr>)) =
     Some \<lparr>item_id = ''autoAnts'', name = ''Auto Ant Creation'', cost = 20,
        oneTimePurchase = Some True, applyOnPrestige = Some True, category = Some Auto\<rparr>"
  by (simp add: freshPrestige_def initialPrestigeStore_def initialPrestigeShop_def findUpgrade_def)





section \<open>Buying as many as the points allow\<close>

lemma buyMaxTurn_frame:
  assumes "findUpgrade k (prestigeShop s) = Some u"
  shows "prestigePoints (buyMaxTurn k s) = binary64 (prestigePoints s - cost u)"
    and "findUpgrade k (prestigeShop (buyMaxTurn k s)) = Some (grownInLoop u)"
    and "purchasedUpgrades (buyMaxTurn k s) = purchasedUpgrades s @ [k]"
  using assms
  by (simp_all add: buyMaxTurn_def Let_def applyPrestigeUpgrade_eq effectOf_frame
      findUpgrade_updateFound grownInLoop_def)




lemma buyMaxLoop_turn:
  assumes "findUpgrade k (prestigeShop s) = Some u" and "cost u \<le> prestigePoints s"
  shows "buyMaxLoop k s = buyMaxLoop k (buyMaxTurn k s)"
  using assms by (subst buyMaxLoop.simps) simp

lemma buyMaxLoop_stop:
  assumes "findUpgrade k (prestigeShop s) = Some u" and "prestigePoints s < cost u"
  shows "buyMaxLoop k s = Some s"
  using assms by (subst buyMaxLoop.simps) simp






lemma rich_find:
  "findUpgrade ''eliteAntsStoreUpgrade'' (prestigeShop richPrestige) =
     Some \<lparr>item_id = ''eliteAntsStoreUpgrade'', name = ''Elite Ants Store Upgrade'', cost = 100,
        oneTimePurchase = None, applyOnPrestige = Some True, category = Some Storage\<rparr>"
  "prestigePoints richPrestige = 250"
  "purchasedUpgrades richPrestige = []"
  by (simp_all add: richPrestige_def freshPrestige_def initialPrestigeStore_def
      initialPrestigeShop_def findUpgrade_def)






lemma updateFound_found:
  assumes "findUpgrade k shop = Some u" and "f u = g u"
  shows "updateFound k f shop = updateFound k g shop"
  using assms unfolding findUpgrade_def by (induction shop) (auto split: if_splits)

text \<open>
  For every id but \<^verbatim>\<open>eliteAntsStoreUpgrade\<close>, a turn of the loop and a call of
  \<^verbatim>\<open>buyUpgrade\<close> leave the same stores when the difference and the product of the turn are
  doubles, as they are for the whole numbers of the shop; only the console differs.
\<close>

lemma buyMaxTurn_agrees:
  assumes "findUpgrade k (prestigeShop s) = Some u" and "cost u \<le> prestigePoints s"
    and "k \<noteq> ''eliteAntsStoreUpgrade''"
    and "binary64 (prestigePoints s - cost u) = prestigePoints s - cost u"
    and "binary64 (cost u * 1.5) = cost u * 1.5"
  shows "(buyMaxTurn k s)\<lparr>console := c\<rparr> = (snd (buyUpgrade k s))\<lparr>console := c\<rparr>"
proof -
  have "effectOf k (s\<lparr>prestigePoints := p, prestigeShop := sh, purchasedUpgrades := pu\<rparr>) =
        (effectOf k (s\<lparr>prestigePoints := p, purchasedUpgrades := pu\<rparr>))\<lparr>prestigeShop := sh\<rparr>"
    for p sh pu
  proof -
    have "s\<lparr>prestigePoints := p, prestigeShop := sh, purchasedUpgrades := pu\<rparr> =
          (s\<lparr>prestigePoints := p, purchasedUpgrades := pu\<rparr>)\<lparr>prestigeShop := sh\<rparr>"
      by simp
    then show ?thesis by (simp only: effectOf_shop)
  qed
  moreover have "updateFound k (\<lambda>u. u\<lparr>cost := of_int \<lfloor>binary64 (cost u * 1.5)\<rfloor>\<rparr>) (prestigeShop s)
      = updateFound k (\<lambda>u. u\<lparr>cost := of_int \<lfloor>cost u * 1.5\<rfloor>\<rparr>) (prestigeShop s)"
    by (rule updateFound_found [OF assms(1)]) (simp only: assms(5))
  ultimately show ?thesis
    using assms
    by (simp add: buyUpgrade_bought buyMaxTurn_def Let_def applyPrestigeUpgrade_eq
        effectOf_frame effectOf_console growthFactor_def grownCost_def)
qed

text \<open>
  With the cost 20 and 50 points the loop buys twice, for 20 and for 30, and leaves no
  points and two entries in the history.
\<close>

lemma buyMaxUpgrade_twice:
  "map_option fst (buyMaxUpgrade ''autoAnts'' (freshPrestige\<lparr>prestigePoints := 50\<rparr>)) = Some True
   \<and> map_option (prestigePoints \<circ> snd)
        (buyMaxUpgrade ''autoAnts'' (freshPrestige\<lparr>prestigePoints := 50\<rparr>)) = Some 0
   \<and> map_option (purchasedUpgrades \<circ> snd)
        (buyMaxUpgrade ''autoAnts'' (freshPrestige\<lparr>prestigePoints := 50\<rparr>))
       = Some [''autoAnts'', ''autoAnts'']"
proof -
  let ?k = "''autoAnts''"
  let ?s = "freshPrestige\<lparr>prestigePoints := 50\<rparr>"
  let ?t1 = "buyMaxTurn ?k ?s"
  let ?t2 = "buyMaxTurn ?k ?t1"
  have s: "prestigePoints ?s = 50" "purchasedUpgrades ?s = []"
    by (simp_all add: freshPrestige_def initialPrestigeStore_def)
  note t1 = buyMaxTurn_frame [OF fresh_find_autoAnts [of 50]]
  have t1': "findUpgrade ?k (prestigeShop ?t1) =
     Some \<lparr>item_id = ''autoAnts'', name = ''Auto Ant Creation'', cost = 30,
        oneTimePurchase = Some True, applyOnPrestige = Some True, category = Some Auto\<rparr>"
    by (simp add: t1 grownInLoop_def)
  note t2 = buyMaxTurn_frame [OF t1']
  have t2': "findUpgrade ?k (prestigeShop ?t2) =
     Some \<lparr>item_id = ''autoAnts'', name = ''Auto Ant Creation'', cost = 45,
        oneTimePurchase = Some True, applyOnPrestige = Some True, category = Some Auto\<rparr>"
    by (simp add: t2 grownInLoop_def)
  have "buyMaxLoop ?k ?s = buyMaxLoop ?k ?t1"
    by (rule buyMaxLoop_turn [OF fresh_find_autoAnts [of 50]]) simp
  also have "\<dots> = buyMaxLoop ?k ?t2"
    by (rule buyMaxLoop_turn [OF t1']) (simp add: t1)
  also have "\<dots> = Some ?t2"
    by (rule buyMaxLoop_stop [OF t2']) (simp add: t2 t1)
  finally have loop: "buyMaxLoop ?k ?s = Some ?t2" .
  have "buyMaxUpgrade ?k ?s = Some (True, logMsg (LogPurchasedMax ''Auto Ant Creation'') ?t2)"
    by (simp add: buyMaxUpgrade_def fresh_find_autoAnts [of 50, simplified] loop)
  then show ?thesis
    by (simp add: logMsg_def t2 t1 s)
qed

text \<open>
  Claim C5. \<^verbatim>\<open>buyMaxUpgrade\<close> is to repeat the step of \<^verbatim>\<open>buyUpgrade\<close>, with the growth of
  the cost that \<^verbatim>\<open>buyUpgrade\<close> uses for the id. The loop multiplies by 1.5 for every id. For
  \<^verbatim>\<open>eliteAntsStoreUpgrade\<close> and 250 points it buys twice, for 100 and for 150, and leaves no
  points and the cost 225; \<^verbatim>\<open>buyUpgrade\<close> buys once, leaves 150 points and the cost 300, and
  refuses a second purchase.
\<close>

theorem buyMaxUpgrade_growth_differs:
  "map_option fst (buyMaxUpgrade ''eliteAntsStoreUpgrade'' richPrestige) = Some True
   \<and> map_option (prestigePoints \<circ> snd) (buyMaxUpgrade ''eliteAntsStoreUpgrade'' richPrestige)
       = Some 0
   \<and> map_option (purchasedUpgrades \<circ> snd) (buyMaxUpgrade ''eliteAntsStoreUpgrade'' richPrestige)
       = Some [''eliteAntsStoreUpgrade'', ''eliteAntsStoreUpgrade'']
   \<and> map_option (\<lambda>r. prestigeCostOr (prestigeShop (snd r)) ''eliteAntsStoreUpgrade'' 0)
        (buyMaxUpgrade ''eliteAntsStoreUpgrade'' richPrestige) = Some 225
   \<and> fst (buyUpgrade ''eliteAntsStoreUpgrade'' richPrestige)
   \<and> prestigePoints (snd (buyUpgrade ''eliteAntsStoreUpgrade'' richPrestige)) = 150
   \<and> prestigeCostOr (prestigeShop (snd (buyUpgrade ''eliteAntsStoreUpgrade'' richPrestige)))
        ''eliteAntsStoreUpgrade'' 0 = 300
   \<and> \<not> fst (buyUpgrade ''eliteAntsStoreUpgrade''
              (snd (buyUpgrade ''eliteAntsStoreUpgrade'' richPrestige)))"
proof -
  let ?k = "''eliteAntsStoreUpgrade''"
  let ?t1 = "buyMaxTurn ?k richPrestige"
  let ?t2 = "buyMaxTurn ?k ?t1"
  note t1 = buyMaxTurn_frame [OF rich_find(1)]
  have t1': "findUpgrade ?k (prestigeShop ?t1) =
     Some \<lparr>item_id = ''eliteAntsStoreUpgrade'', name = ''Elite Ants Store Upgrade'', cost = 150,
        oneTimePurchase = None, applyOnPrestige = Some True, category = Some Storage\<rparr>"
    by (simp add: t1 grownInLoop_def)
  note t2 = buyMaxTurn_frame [OF t1']
  have t2': "findUpgrade ?k (prestigeShop ?t2) =
     Some \<lparr>item_id = ''eliteAntsStoreUpgrade'', name = ''Elite Ants Store Upgrade'', cost = 225,
        oneTimePurchase = None, applyOnPrestige = Some True, category = Some Storage\<rparr>"
    by (simp add: t2 grownInLoop_def)
  have "buyMaxLoop ?k richPrestige = buyMaxLoop ?k ?t1"
    by (rule buyMaxLoop_turn [OF rich_find(1)]) (simp add: rich_find)
  also have "\<dots> = buyMaxLoop ?k ?t2"
    by (rule buyMaxLoop_turn [OF t1']) (simp add: t1 rich_find)
  also have "\<dots> = Some ?t2"
    by (rule buyMaxLoop_stop [OF t2']) (simp add: t2 t1 rich_find)
  finally have loop: "buyMaxLoop ?k richPrestige = Some ?t2" .
  have max: "buyMaxUpgrade ?k richPrestige =
      Some (True, logMsg (LogPurchasedMax ''Elite Ants Store Upgrade'') ?t2)"
    by (simp add: buyMaxUpgrade_def rich_find loop)
  have le: "cost \<lparr>item_id = ''eliteAntsStoreUpgrade'', name = ''Elite Ants Store Upgrade'',
        cost = 100, oneTimePurchase = None, applyOnPrestige = Some True,
        category = Some Storage\<rparr> \<le> prestigePoints richPrestige"
    by (simp add: rich_find)
  note b = bought_frame [OF rich_find(1) le]
  have b4: "findUpgrade ?k (prestigeShop (snd (buyUpgrade ?k richPrestige))) =
     Some \<lparr>item_id = ''eliteAntsStoreUpgrade'', name = ''Elite Ants Store Upgrade'', cost = 300,
        oneTimePurchase = None, applyOnPrestige = Some True, category = Some Storage\<rparr>"
    by (simp add: b grownCost_def growthFactor_def)
  have refused: "\<not> fst (buyUpgrade ?k (snd (buyUpgrade ?k richPrestige)))"
    by (subst buyUpgrade_refused) (simp_all add: b4 b rich_find)
  show ?thesis
    using refused
    by (simp add: max logMsg_def t2(1,3) t1(1,3) t2' rich_find prestigeCostOr_def b b4
        grownCost_def growthFactor_def)
qed




section \<open>Achievements\<close>

lemma checkAchievements_length: "length (fst (checkAchievements env as)) = length as"
  by (simp add: checkAchievements_def)

lemma checkAchievements_nth:
  assumes "i < length as"
  shows "isUnlocked (fst (checkAchievements env as) ! i) =
           (isUnlocked (as ! i) \<or> unlockCondition (as ! i) env)"
  using assms by (auto simp: checkAchievements_def checkAchievement_def)

lemma checkAchievements_toasts:
  "snd (checkAchievements env as) =
     map (\<lambda>a. ''Achievement Unlocked: '' @ achievement_name a)
       (filter (\<lambda>a. \<not> isUnlocked a \<and> unlockCondition a env) as)"
  by (induction as) (simp_all add: checkAchievements_def checkAchievement_def)

lemma saved_all_unlocked:
  "find P (getAchievementState as) = Some sv \<Longrightarrow> savedAchievement_isUnlocked sv"
proof -
  assume "find P (getAchievementState as) = Some sv"
  then have "sv \<in> set (getAchievementState as)"
    by (auto simp: find_Some_iff)
  then show ?thesis by (simp add: getAchievementState_def)
qed

lemma loadAchievementState_length: "length (loadAchievementState st bs) = length bs"
  by (simp add: loadAchievementState_def)

lemma load_saved_keeps_unlocked:
  assumes "i < length bs" and "isUnlocked (bs ! i)"
  shows "isUnlocked (loadAchievementState (Some (getAchievementState as)) bs ! i)"
  using assms
  by (auto simp: loadAchievementState_def split: option.split dest: saved_all_unlocked)

lemma achievementStep_length: "length (achievementStep e as) = length as"
  by (cases e) (simp_all add: checkAchievements_length loadAchievementState_length)

lemma achievementStep_keeps_unlocked:
  assumes "i < length as" and "isUnlocked (as ! i)"
  shows "isUnlocked (achievementStep e as ! i)"
  using assms by (cases e) (simp_all add: checkAchievements_nth load_saved_keeps_unlocked)

lemma achievementRun_length: "length (achievementRun es as) = length as"
  unfolding achievementRun_def
  by (induction es arbitrary: as) (simp_all add: achievementStep_length)

lemma achievementRun_keeps_unlocked:
  assumes "i < length as" and "isUnlocked (as ! i)"
  shows "isUnlocked (achievementRun es as ! i)"
  using assms unfolding achievementRun_def
proof (induction es arbitrary: as)
  case Nil
  then show ?case by simp
next
  case (Cons e es)
  have "i < length (achievementStep e as)" using Cons.prems(1) by (simp add: achievementStep_length)
  moreover have "isUnlocked (achievementStep e as ! i)"
    using Cons.prems by (rule achievementStep_keeps_unlocked)
  ultimately show ?case using Cons.IH by simp
qed

text \<open>
  Claim C9. Over every sequence of evaluations and of saves followed by a load of what was
  saved, an achievement that is unlocked stays unlocked. One evaluation unlocks exactly
  the locked achievements whose condition holds and shows one toast for each of them, in
  their order; and loading what \<^verbatim>\<open>getAchievementState\<close> returned, for any store, locks
  nothing.
\<close>

theorem achievement_latch:
  "(\<forall>i < length as. isUnlocked (as ! i) \<longrightarrow> isUnlocked (achievementRun es as ! i))
   \<and> length (achievementRun es as) = length as
   \<and> (\<forall>i < length as. isUnlocked (fst (checkAchievements env as) ! i) =
          (isUnlocked (as ! i) \<or> unlockCondition (as ! i) env))
   \<and> snd (checkAchievements env as) =
        map (\<lambda>a. ''Achievement Unlocked: '' @ achievement_name a)
          (filter (\<lambda>a. \<not> isUnlocked a \<and> unlockCondition a env) as)
   \<and> (\<forall>i < length bs. isUnlocked (bs ! i) \<longrightarrow>
          isUnlocked (loadAchievementState (Some (getAchievementState as)) bs ! i))"
  by (simp add: achievementRun_keeps_unlocked achievementRun_length checkAchievements_nth
      checkAchievements_toasts load_saved_keeps_unlocked)

text \<open>
  With 150 seeds the first achievement unlocks with one toast; it stays unlocked through a
  save and load and an evaluation with 50 seeds, and when the store loads what was saved
  before anything was unlocked; a second evaluation shows no toast.
\<close>

theorem achievement_latch_witness:
  "0 < length (achievementStep (Check 150) seedAchievements)
   \<and> isUnlocked (achievementStep (Check 150) seedAchievements ! 0)
   \<and> isUnlocked (achievementRun [SaveAndLoad, Check 50, SaveAndLoad]
                    (achievementStep (Check 150) seedAchievements) ! 0)
   \<and> isUnlocked (loadAchievementState (Some (getAchievementState seedAchievements))
                    (achievementStep (Check 150) seedAchievements) ! 0)
   \<and> snd (checkAchievements 150 seedAchievements) = [''Achievement Unlocked: Seed Collector'']
   \<and> snd (checkAchievements 150 (achievementStep (Check 150) seedAchievements)) = []"
proof -
  have a: "0 < length (achievementStep (Check 150) seedAchievements)"
    and b: "isUnlocked (achievementStep (Check 150) seedAchievements ! 0)"
    by (simp_all add: seedAchievements_def checkAchievements_def checkAchievement_def)
  show ?thesis
    using achievement_latch
      [of "achievementStep (Check 150) seedAchievements" "[SaveAndLoad, Check 50, SaveAndLoad]"
        150 "[]"]
      achievement_latch
      [of seedAchievements "[]" 150 "achievementStep (Check 150) seedAchievements"] a b
    by (simp add: seedAchievements_def checkAchievements_def checkAchievement_def)
qed

end
